theory Spec2Isabelle
  imports Complex_Main "HOL-Library.Word"
begin

section \<open>Values, errors and sequences\<close>

text \<open>
  The sonar processing node of \<^verbatim>\<open>sonar_processing_node.py\<close> computes with Python and
  numpy floats. A finite float is idealised as a real number (rounding, overflow and
  the sign of zero are not modelled); the integer samples of a sonar message are
  embedded in the reals. The missing-value marker \<^verbatim>\<open>np.nan\<close> that blind-zone removal
  writes into a channel is a value of its own, and arithmetic on samples propagates
  it, as IEEE arithmetic does.
\<close>

datatype sample = Val real | NaN

fun sample_scale :: "real \<Rightarrow> sample \<Rightarrow> sample" where
  "sample_scale w (Val x) = Val (w * x)"
| "sample_scale w NaN = NaN"

fun sample_add :: "sample \<Rightarrow> sample \<Rightarrow> sample" where
  "sample_add (Val x) (Val y) = Val (x + y)"
| "sample_add _ _ = NaN"

text \<open>
  Exceptions are values. \<open>FloatConversionError\<close> stands for what \<^verbatim>\<open>int()\<close> and
  \<^verbatim>\<open>math.floor()\<close> raise on a non-finite float (\<^verbatim>\<open>ValueError\<close> for NaN,
  \<^verbatim>\<open>OverflowError\<close> for an infinity): numpy division by zero yields such a float
  with a warning only, and the conversion that follows raises.
  \<open>ExternalError\<close> is a fault of one of the collaborators outside the file.
\<close>

datatype error = ValueError | IndexError | FloatConversionError | ExternalError

definition bind_err :: "error + 'a \<Rightarrow> ('a \<Rightarrow> error + 'b) \<Rightarrow> error + 'b" where
  "bind_err m f = (case m of Inl e \<Rightarrow> Inl e | Inr x \<Rightarrow> f x)"

text \<open>
  Indexing a Python list or a numpy array: a negative index counts from the end, an
  index out of range raises \<^verbatim>\<open>IndexError\<close>.
\<close>

definition py_index :: "'a list \<Rightarrow> int \<Rightarrow> error + 'a" where
  "py_index xs i =
     (if 0 \<le> i \<and> i < int (length xs) then Inr (xs ! nat i)
      else if - int (length xs) \<le> i \<and> i < 0 then Inr (xs ! nat (int (length xs) + i))
      else Inl IndexError)"

text \<open>
  \<^verbatim>\<open>swath[:i] = [np.nan] * i\<close> depends on what \<^verbatim>\<open>swath\<close> is. The channel handed
  to blind-zone removal is what \<^verbatim>\<open>swath_normalization\<close> returned, and that function is
  not part of the file; both candidates are modelled.
  \<^item> On a Python list the slice \<^verbatim>\<open>[:i]\<close> is replaced by the \<open>i\<close> markers, whatever
    its length: the list grows when \<open>i\<close> exceeds its length, and for a negative \<open>i\<close>
    the slice (all but the last \<open>-i\<close> items) is replaced by the empty list.
  \<^item> On a numpy array (of floats, so that it can hold the marker) the value is
    broadcast into the slice: its length must be the slice's length, or one; anything
    else raises \<^verbatim>\<open>ValueError\<close>.
\<close>

datatype container = PyList | NdArray

definition slice_length :: "int \<Rightarrow> nat \<Rightarrow> nat" where
  "slice_length i n = (if 0 \<le> i then min (nat i) n else nat (int n + i))"

fun assign_prefix :: "container \<Rightarrow> int \<Rightarrow> sample list \<Rightarrow> error + sample list" where
  "assign_prefix PyList i xs =
     Inr (replicate (nat i) NaN @ drop (slice_length i (length xs)) xs)"
| "assign_prefix NdArray i xs =
     (let k = slice_length i (length xs) in
      if nat i = k \<or> nat i = 1 then Inr (replicate k NaN @ drop k xs)
      else Inl ValueError)"

section \<open>Sonar geometry and blind-zone removal\<close>

text \<open>
  \<^verbatim>\<open>side_scan_data\<close> is declared in a module outside the file; the node reads its
  fields \<^verbatim>\<open>theta\<close>, \<^verbatim>\<open>alpha\<close>, \<^verbatim>\<open>res\<close> and \<^verbatim>\<open>nSamples\<close>.
\<close>

record side_scan_data =
  theta :: real
  alpha :: real
  res :: real
  nSamples :: nat

text \<open>
  Lines 84-85: \<^verbatim>\<open>r_FBR = current_altitude / np.sin(theta + alpha/2)\<close>, then
  \<^verbatim>\<open>index_FBR = int(np.floor_divide(r_FBR, res))\<close>. A zero sine or a zero resolution
  makes the quotient non-finite and the conversion raises.
\<close>

definition index_FBR :: "side_scan_data \<Rightarrow> real \<Rightarrow> error + int" where
  "index_FBR ssd current_altitude =
     (let s = sin (theta ssd + alpha ssd / 2) in
      if s = 0 \<or> res ssd = 0 then Inl FloatConversionError
      else Inr \<lfloor>(current_altitude / s) / res ssd\<rfloor>)"

definition blind_zone_removal ::
  "side_scan_data \<Rightarrow> container \<Rightarrow> real \<Rightarrow> sample list \<Rightarrow> error + sample list" where
  "blind_zone_removal ssd kind current_altitude swath =
     bind_err (index_FBR ssd current_altitude) (\<lambda>i. assign_prefix kind i swath)"

section \<open>Messages and the swath\<close>

text \<open>
  A sonar message carries two sequences of \<^verbatim>\<open>bytes\<close> objects; line 56 reads each as a
  big-endian unsigned integer.
\<close>

record sonar_msg =
  data_zero :: "8 word list list"
  data_one :: "8 word list list"

definition int_from_bytes_big :: "8 word list \<Rightarrow> int" where
  "int_from_bytes_big byte_val = foldl (\<lambda>acc b. acc * 256 + uint b) 0 byte_val"

record dvl_msg =
  dvl_altitude :: real

text \<open>
  Of an \<^verbatim>\<open>Odometry\<close> message the node reads the position and the orientation
  quaternion of \<^verbatim>\<open>pose.pose\<close>.
\<close>

record odometry =
  position_x :: real
  position_y :: real
  orientation_w :: real
  orientation_x :: real
  orientation_y :: real
  orientation_z :: real

text \<open>
  \<^verbatim>\<open>swath_structure\<close> is declared outside the file; the node reads and writes its
  four attributes.
\<close>

record swath_structure =
  swath_right :: "sample list"
  swath_left :: "sample list"
  state :: odometry
  altitude :: real

section \<open>Slant-range correction\<close>

text \<open>
  Lines 96-98. \<^verbatim>\<open>np.sqrt(...)/res\<close> is a numpy division: for \<^verbatim>\<open>res = 0\<close> it is
  non-finite and \<^verbatim>\<open>math.floor\<close> raises.
\<close>

definition exact_bin :: "real \<Rightarrow> real \<Rightarrow> nat \<Rightarrow> real" where
  "exact_bin r a s = sqrt ((r * real s)\<^sup>2 + a\<^sup>2) / r"

definition floor_bin :: "real \<Rightarrow> real \<Rightarrow> nat \<Rightarrow> nat \<Rightarrow> int" where
  "floor_bin r a number_of_samples s =
     min \<lfloor>exact_bin r a s\<rfloor> (int number_of_samples - 1)"

definition ceiling_bin :: "real \<Rightarrow> real \<Rightarrow> nat \<Rightarrow> nat \<Rightarrow> int" where
  "ceiling_bin r a number_of_samples s =
     min \<lceil>exact_bin r a s\<rceil> (int number_of_samples - 1)"

definition weight_1 :: "real \<Rightarrow> real \<Rightarrow> nat \<Rightarrow> nat \<Rightarrow> real" where
  "weight_1 r a number_of_samples s =
     exact_bin r a s - real_of_int (floor_bin r a number_of_samples s)"

definition weight_2 :: "real \<Rightarrow> real \<Rightarrow> nat \<Rightarrow> nat \<Rightarrow> real" where
  "weight_2 r a number_of_samples s = 1 - weight_1 r a number_of_samples s"

text \<open>Lines 102-103: the blend of one channel at one sample index.\<close>

definition corrected_intensity_value ::
  "real \<Rightarrow> real \<Rightarrow> nat \<Rightarrow> sample list \<Rightarrow> nat \<Rightarrow> error + sample" where
  "corrected_intensity_value r a number_of_samples swath s =
     (if r = 0 then Inl FloatConversionError
      else
        bind_err (py_index swath (floor_bin r a number_of_samples s)) (\<lambda>lo.
        bind_err (py_index swath (ceiling_bin r a number_of_samples s)) (\<lambda>hi.
        Inr (sample_add (sample_scale (weight_2 r a number_of_samples s) lo)
                        (sample_scale (weight_1 r a number_of_samples s) hi)))))"

text \<open>
  The loop of lines 95-105 over \<^verbatim>\<open>range(number_of_samples)\<close>: both channels are
  extended in the same iteration, and the first exception ends the loop.
\<close>

fun slant_loop ::
  "real \<Rightarrow> real \<Rightarrow> nat \<Rightarrow> sample list \<Rightarrow> sample list \<Rightarrow> nat list
     \<Rightarrow> error + (sample list \<times> sample list)" where
  "slant_loop r a n right left [] = Inr ([], [])"
| "slant_loop r a n right left (s # ss) =
     bind_err (corrected_intensity_value r a n right s) (\<lambda>cr.
     bind_err (corrected_intensity_value r a n left s) (\<lambda>cl.
     bind_err (slant_loop r a n right left ss) (\<lambda>(rs, ls).
     Inr (cr # rs, cl # ls))))"

definition slant_range_correction ::
  "side_scan_data \<Rightarrow> swath_structure \<Rightarrow> error + swath_structure" where
  "slant_range_correction ssd sw =
     (let a = altitude sw;
          r = res ssd;
          number_of_samples = length (swath_right sw)
      in bind_err
           (slant_loop r a number_of_samples (swath_right sw) (swath_left sw)
              [0..<number_of_samples])
           (\<lambda>(corrected_swath_right, corrected_swath_left).
              Inr (sw\<lparr>swath_right := corrected_swath_right,
                      swath_left := corrected_swath_left\<rparr>)))"

section \<open>Pose correction\<close>

text \<open>
  \<^verbatim>\<open>math.atan2\<close> on finite arguments (the sign of a zero is not modelled).
\<close>

definition atan2 :: "real \<Rightarrow> real \<Rightarrow> real" where
  "atan2 y x =
     (if 0 < x then arctan (y / x)
      else if x < 0 then (if 0 \<le> y then arctan (y / x) + pi else arctan (y / x) - pi)
      else if 0 < y then pi / 2
      else if y < 0 then - (pi / 2)
      else 0)"

definition pitch_yaw_from_quaternion :: "real \<Rightarrow> real \<Rightarrow> real \<Rightarrow> real \<Rightarrow> real \<times> real" where
  "pitch_yaw_from_quaternion w x y z =
     (let t2 = 2 * (w * y - z * x);
          t2 = (if 1 < t2 then 1 else t2);
          t2 = (if t2 < - 1 then - 1 else t2);
          pitch = arcsin t2;
          t3 = 2 * (w * z + x * y);
          t4 = 1 - 2 * (y * y + z * z);
          yaw = atan2 t3 t4
      in (pitch, yaw))"

text \<open>
  The \<open>6 \<times> N\<close> array of line 124, by rows: four coordinate rows and two intensity
  rows.
\<close>

record coordinate_array =
  x_right :: "real list"
  x_left :: "real list"
  y_right :: "real list"
  y_left :: "real list"
  intensity_right :: "sample list"
  intensity_left :: "sample list"

text \<open>
  Line 125 assigns \<^verbatim>\<open>np.array([swath_right, swath_left])\<close> to rows 4 and 5, which have
  \<^verbatim>\<open>len(swath_right)\<close> columns: channels of different lengths raise
  \<^verbatim>\<open>ValueError\<close>. The coordinates are real numbers here; for \<^verbatim>\<open>nSamples = 0\<close> numpy
  computes non-finite ones, which no statement below is about.
\<close>

definition pose_correction ::
  "side_scan_data \<Rightarrow> swath_structure \<Rightarrow> error + coordinate_array" where
  "pose_correction ssd sw =
     (let (pitch, psi) =
            pitch_yaw_from_quaternion (orientation_w (state sw)) (orientation_x (state sw))
              (orientation_y (state sw)) (orientation_z (state sw));
          pos_x = position_x (state sw);
          pos_y = position_y (state sw);
          a = altitude sw;
          res_temp = tan (theta ssd + alpha ssd / 2) - tan (theta ssd - alpha ssd / 2);
          r = res_temp * a / real (nSamples ssd);
          number_of_samples = length (swath_right sw)
      in if length (swath_left sw) \<noteq> number_of_samples then Inl ValueError
         else Inr \<lparr>
           x_right = map (\<lambda>s. - (pos_x + sin psi * real s * r + sin pitch * cos psi * a))
                       [0..<number_of_samples],
           x_left = map (\<lambda>s. - (pos_x - sin psi * real s * r + sin pitch * cos psi * a))
                       [0..<number_of_samples],
           y_right = map (\<lambda>s. - pos_y + cos psi * real s * r - sin pitch * sin psi * a)
                       [0..<number_of_samples],
           y_left = map (\<lambda>s. - pos_y - cos psi * real s * r - sin pitch * sin psi * a)
                       [0..<number_of_samples],
           intensity_right = swath_right sw,
           intensity_left = swath_left sw\<rparr>)"

section \<open>The node\<close>

text \<open>
  The collaborators outside the file: the spline regression behind
  \<^verbatim>\<open>swath_normalization\<close> (of which only the normalized channel is used) with the kind
  of sequence it returns, scipy's \<^verbatim>\<open>griddata\<close>, the k-nearest-neighbour filter
  \<^verbatim>\<open>knn\<close> and the three \<^verbatim>\<open>to_csv\<close> writes. Each is a parameter and each may
  raise.
\<close>

type_synonym raster = "sample list list"

record stored_frame =
  frame_number :: nat
  raw_table :: "(real \<times> real \<times> sample) list"
  knn_table :: raster
  knn_filtered_table :: raster

record externals =
  swath_normalization :: "sample list \<Rightarrow> error + sample list"
  normalized_container :: container
  griddata ::
    "(real \<times> real) list \<Rightarrow> sample list \<Rightarrow> real list list \<times> real list list
       \<Rightarrow> error + raster"
  knn ::
    "real \<Rightarrow> real list \<Rightarrow> real list \<Rightarrow> sample list
       \<Rightarrow> error + (raster \<times> raster \<times> raster)"
  to_csv :: "stored_frame \<Rightarrow> error + unit"

text \<open>
  The swaths are Python objects: the queue of unprocessed swaths holds references, and
  an assignment to an attribute is seen through every reference to the object. The
  store \<open>heap\<close> maps an address to the object there.
\<close>

type_synonym addr = nat

record node =
  side_scan_data :: side_scan_data
  heap :: "addr \<Rightarrow> swath_structure"
  current_swath :: addr
  current_altitude :: real
  current_state :: odometry
  state_initialized :: bool
  buffer_unprocessed_swaths :: "addr list"
  buffer_processed_coordinate_array :: "coordinate_array list"
  processed_frame_counter :: nat
  stored_frames :: "stored_frame list"

text \<open>
  Lines 26-47. \<^verbatim>\<open>ssd.side_scan_data()\<close>, \<^verbatim>\<open>ssd.swath_structure()\<close> and
  \<^verbatim>\<open>Odometry()\<close> are built outside the file and are parameters here. The constructor
  creates one swath object; nothing in the file creates another.
\<close>

definition init :: "side_scan_data \<Rightarrow> swath_structure \<Rightarrow> odometry \<Rightarrow> node" where
  "init ssd fresh_swath fresh_odometry =
     \<lparr>side_scan_data = ssd,
      heap = (\<lambda>_. fresh_swath),
      current_swath = 0,
      current_altitude = 0,
      current_state = fresh_odometry,
      state_initialized = False,
      buffer_unprocessed_swaths = [],
      buffer_processed_coordinate_array = [],
      processed_frame_counter = 1,
      stored_frames = []\<rparr>"

subsection \<open>Subscriptions\<close>

text \<open>
  Lines 51-63: the attributes of the object \<^verbatim>\<open>self.current_swath\<close> are overwritten
  and a reference to that object is appended to the queue.
\<close>

definition sonar_sub :: "sonar_msg \<Rightarrow> node \<Rightarrow> node" where
  "sonar_sub msg st =
     (if \<not> state_initialized st then st
      else
        let p = current_swath st;
            sw = (heap st p)\<lparr>
              swath_right := map (\<lambda>byte_val. Val (real_of_int (int_from_bytes_big byte_val)))
                               (data_zero msg),
              swath_left := map (\<lambda>byte_val. Val (real_of_int (int_from_bytes_big byte_val)))
                              (data_one msg),
              state := current_state st,
              altitude := current_altitude st\<rparr>
        in st\<lparr>heap := (heap st)(p := sw),
              buffer_unprocessed_swaths := buffer_unprocessed_swaths st @ [p]\<rparr>)"

definition dvl_sub :: "dvl_msg \<Rightarrow> node \<Rightarrow> node" where
  "dvl_sub msg st =
     (if dvl_altitude msg \<noteq> - 1 then st\<lparr>current_altitude := dvl_altitude msg\<rparr> else st)"

definition state_sub :: "odometry \<Rightarrow> node \<Rightarrow> node" where
  "state_sub msg st = st\<lparr>current_state := msg, state_initialized := True\<rparr>"

subsection \<open>Building a mosaic frame\<close>

text \<open>
  Lines 137-142: for each buffered array, rows 0 and 1 go to \<^verbatim>\<open>u\<close>, rows 2 and 3 to
  \<^verbatim>\<open>v\<close>, then row 5 and after it row 4 to \<^verbatim>\<open>intensity_values\<close>.
\<close>

fun flatten_frames ::
  "coordinate_array list \<Rightarrow> real list \<times> real list \<times> sample list" where
  "flatten_frames [] = ([], [], [])"
| "flatten_frames (ca # cas) =
     (let (us, vs, ivs) = flatten_frames cas
      in ((x_right ca @ x_left ca) @ us,
          (y_right ca @ y_left ca) @ vs,
          (intensity_left ca @ intensity_right ca) @ ivs))"

text \<open>The builtins \<^verbatim>\<open>min\<close> and \<^verbatim>\<open>max\<close> raise \<^verbatim>\<open>ValueError\<close> on an empty sequence.\<close>

definition py_min :: "real list \<Rightarrow> error + real" where
  "py_min xs = (case xs of [] \<Rightarrow> Inl ValueError | x # r \<Rightarrow> Inr (fold min r x))"

definition py_max :: "real list \<Rightarrow> error + real" where
  "py_max xs = (case xs of [] \<Rightarrow> Inl ValueError | x # r \<Rightarrow> Inr (fold max r x))"

text \<open>\<^verbatim>\<open>int()\<close> of a finite float truncates towards zero.\<close>

definition py_int :: "real \<Rightarrow> int" where
  "py_int x = (if 0 \<le> x then \<lfloor>x\<rfloor> else \<lceil>x\<rceil>)"

definition linspace :: "real \<Rightarrow> real \<Rightarrow> int \<Rightarrow> error + real list" where
  "linspace start stop num =
     (if num < 0 then Inl ValueError
      else if num = 1 then Inr [start]
      else Inr (map (\<lambda>k. start + real k * ((stop - start) / real (nat num - 1)))
                  [0..<nat num]))"

text \<open>The returned tuple of line 152.\<close>

record frame_products =
  frame_u :: "real list"
  frame_v :: "real list"
  frame_intensity_values :: "sample list"
  linear_frame :: raster
  min_u_temp :: int
  min_v :: int
  knn_intensity_mean :: raster
  knn_intensity_variance :: raster
  knn_filtered_image :: raster

text \<open>Lines 212-224: three tables are written and the frame counter advances.\<close>

definition store_processed_frames ::
  "externals \<Rightarrow> real list \<Rightarrow> real list \<Rightarrow> sample list \<Rightarrow> raster \<Rightarrow> raster \<Rightarrow> node
     \<Rightarrow> error + node" where
  "store_processed_frames ext us vs ivs mean filtered st =
     (let f = \<lparr>frame_number = processed_frame_counter st,
                raw_table = zip us (zip vs ivs),
                knn_table = mean,
                knn_filtered_table = filtered\<rparr>
      in bind_err (to_csv ext f) (\<lambda>_.
           Inr (st\<lparr>stored_frames := stored_frames st @ [f],
                   processed_frame_counter := processed_frame_counter st + 1\<rparr>)))"

text \<open>
  Lines 136-152. \<^verbatim>\<open>(V.T, U.T)\<close> of the mesh grid: entry \<open>(i, j)\<close> of \<^verbatim>\<open>U.T\<close> is
  \<^verbatim>\<open>u_interval[i]\<close> and that of \<^verbatim>\<open>V.T\<close> is \<^verbatim>\<open>v_interval[j]\<close>.
\<close>

definition construct_frame :: "externals \<Rightarrow> node \<Rightarrow> error + (frame_products \<times> node)" where
  "construct_frame ext st =
     (let (us, vs, ivs) = flatten_frames (buffer_processed_coordinate_array st);
          u_temp = map (\<lambda>element. element * - 1) us
      in
        bind_err (py_min u_temp) (\<lambda>min_u.
        bind_err (py_max u_temp) (\<lambda>max_u.
        bind_err (linspace min_u max_u (py_int (max_u - min_u))) (\<lambda>u_interval.
        bind_err (py_min vs) (\<lambda>min_vs.
        bind_err (py_max vs) (\<lambda>max_vs.
        bind_err (linspace min_vs max_vs (py_int (max_vs - min_vs))) (\<lambda>v_interval.
        bind_err (griddata ext (zip vs u_temp) ivs
                    (replicate (length u_interval) v_interval,
                     map (\<lambda>x. replicate (length v_interval) x) u_interval)) (\<lambda>linear.
        bind_err (knn ext (res (side_scan_data st)) u_temp vs ivs) (\<lambda>(mean, variance, filtered).
        bind_err (store_processed_frames ext us vs ivs mean filtered st) (\<lambda>st'.
        Inr (\<lparr>frame_u = us, frame_v = vs, frame_intensity_values = ivs,
              linear_frame = linear, min_u_temp = py_int min_u, min_v = py_int min_vs,
              knn_intensity_mean = mean, knn_intensity_variance = variance,
              knn_filtered_image = filtered\<rparr>, st')))))))))))"

subsection \<open>The scheduler tick\<close>

text \<open>
  Lines 154-186. An exception raised anywhere leaves the callback; the model ends the
  run there with the error.
\<close>

definition run_full_pre_processing_pipeline :: "externals \<Rightarrow> node \<Rightarrow> error + node" where
  "run_full_pre_processing_pipeline ext st =
     (if length (buffer_unprocessed_swaths st) = 0 then Inr st
      else
        let buffer_size = length (buffer_processed_coordinate_array st) in
        bind_err
          (if buffer_size mod 100 = 0 \<and> buffer_size \<noteq> 0
           then bind_err (construct_frame ext st) (\<lambda>(_, st').
                  Inr (st'\<lparr>buffer_processed_coordinate_array :=
                             drop 50 (buffer_processed_coordinate_array st')\<rparr>))
           else Inr st)
          (\<lambda>st.
             let p = hd (buffer_unprocessed_swaths st);
                 ssd = side_scan_data st;
                 sw = heap st p
             in
               bind_err (swath_normalization ext (swath_right sw)) (\<lambda>r1.
               bind_err (swath_normalization ext (swath_left sw)) (\<lambda>l1.
               bind_err (blind_zone_removal ssd (normalized_container ext)
                           (current_altitude st) r1) (\<lambda>r2.
               bind_err (blind_zone_removal ssd (normalized_container ext)
                           (current_altitude st) l1) (\<lambda>l2.
               bind_err (slant_range_correction ssd
                           (sw\<lparr>swath_right := r2, swath_left := l2\<rparr>)) (\<lambda>sw'.
               bind_err (pose_correction ssd sw') (\<lambda>processed_coordinate_array.
               Inr (st\<lparr>heap := (heap st)(p := sw'),
                       buffer_processed_coordinate_array :=
                         buffer_processed_coordinate_array st @ [processed_coordinate_array],
                       buffer_unprocessed_swaths := tl (buffer_unprocessed_swaths st)\<rparr>)))))))))"

subsection \<open>Runs of the node\<close>

text \<open>
  The states the node can be in: the constructor's state, and from any such state the
  state after a sonar, altitude or pose message or after a tick that returned.
\<close>

inductive reachable :: "externals \<Rightarrow> node \<Rightarrow> bool" for ext :: externals where
  reach_init: "reachable ext (init ssd fresh_swath fresh_odometry)"
| reach_sonar: "reachable ext st \<Longrightarrow> reachable ext (sonar_sub smsg st)"
| reach_dvl: "reachable ext st \<Longrightarrow> reachable ext (dvl_sub dmsg st)"
| reach_state: "reachable ext st \<Longrightarrow> reachable ext (state_sub omsg st)"
| reach_tick:
    "reachable ext st \<Longrightarrow> run_full_pre_processing_pipeline ext st = Inr st'
       \<Longrightarrow> reachable ext st'"

section \<open>Example inputs\<close>

text \<open>
  A geometry with \<open>sin (theta + alpha / 2) = 1 / 2\<close>, collaborators that never fail
  (the normalization returns its channel as a numpy array), the identity pose, and a
  sonar message of one sample per channel.
\<close>

definition ssd_ex :: side_scan_data where
  "ssd_ex = \<lparr>theta = pi / 6, alpha = 0, res = 1, nSamples = 1\<rparr>"

definition ext_ex :: externals where
  "ext_ex = \<lparr>swath_normalization = Inr,
              normalized_container = NdArray,
              griddata = (\<lambda>_ _ _. Inr []),
              knn = (\<lambda>_ _ _ _. Inr ([], [], [])),
              to_csv = (\<lambda>_. Inr ())\<rparr>"

definition odometry_ex :: odometry where
  "odometry_ex = \<lparr>position_x = 0, position_y = 0, orientation_w = 1,
                   orientation_x = 0, orientation_y = 0, orientation_z = 0\<rparr>"

definition fresh_swath_ex :: swath_structure where
  "fresh_swath_ex = \<lparr>swath_right = [], swath_left = [], state = odometry_ex, altitude = 0\<rparr>"

definition msg_ex :: sonar_msg where
  "msg_ex = \<lparr>data_zero = [[1]], data_one = [[2]]\<rparr>"

definition msg_ex' :: sonar_msg where
  "msg_ex' = \<lparr>data_zero = [[3]], data_one = [[4]]\<rparr>"

text \<open>The swath of \<open>msg_ex\<close> at altitude 0 and the array it is processed to.\<close>

definition swath_ex :: swath_structure where
  "swath_ex = \<lparr>swath_right = [Val 1], swath_left = [Val 2], state = odometry_ex, altitude = 0\<rparr>"

definition ca_ex :: coordinate_array where
  "ca_ex = \<lparr>x_right = [0], x_left = [0], y_right = [0], y_left = [0],
            intensity_right = [Val 1], intensity_left = [Val 2]\<rparr>"

text \<open>
  The node after the first pose message and \<open>k\<close> rounds of a sonar message \<open>msg_ex\<close>
  and a tick, with \<open>q\<close> the queue.
\<close>

definition node_ex :: "nat \<Rightarrow> addr list \<Rightarrow> node" where
  "node_ex k q =
     \<lparr>side_scan_data = ssd_ex,
      heap = (\<lambda>_. fresh_swath_ex)(0 := swath_ex),
      current_swath = 0,
      current_altitude = 0,
      current_state = odometry_ex,
      state_initialized = True,
      buffer_unprocessed_swaths = q,
      buffer_processed_coordinate_array = replicate k ca_ex,
      processed_frame_counter = 1,
      stored_frames = []\<rparr>"

text \<open>
  An array of two samples per channel, as a vehicle at the origin with yaw and pitch 0
  and a ground resolution of 1 produces it, and an array of no samples.
\<close>

definition ca_two :: coordinate_array where
  "ca_two = \<lparr>x_right = [0, 0], x_left = [0, 0], y_right = [0, 1], y_left = [0, - 1],
             intensity_right = [Val 1, Val 2], intensity_left = [Val 3, Val 4]\<rparr>"

definition ca_empty :: coordinate_array where
  "ca_empty = \<lparr>x_right = [], x_left = [], y_right = [], y_left = [],
               intensity_right = [], intensity_left = []\<rparr>"

text \<open>The tables stored by the build on a buffer of 100 arrays \<open>ca_ex\<close>.\<close>

definition stored_ex :: stored_frame where
  "stored_ex = \<lparr>frame_number = 1,
       raw_table = zip (fst (flatten_frames (replicate 100 ca_ex)))
                     (zip (fst (snd (flatten_frames (replicate 100 ca_ex))))
                          (snd (snd (flatten_frames (replicate 100 ca_ex))))),
       knn_table = [], knn_filtered_table = []\<rparr>"

text \<open>
  The node with one queued swath and a buffer of 100 arrays of two samples, or of
  no samples.
\<close>

definition node_two :: node where
  "node_two = (node_ex 0 [0])\<lparr>buffer_processed_coordinate_array := replicate 100 ca_two\<rparr>"

definition node_empty_frames :: node where
  "node_empty_frames = (node_ex 0 [0])\<lparr>buffer_processed_coordinate_array := replicate 100 ca_empty\<rparr>"

text \<open>
  Collaborators whose normalization returns a Python list, an altitude message of 1,
  and what the tick makes of the queued swath of \<open>node_ex 0 [0]\<close> after that
  message: two markers per channel.
\<close>

definition ext_list :: externals where
  "ext_list = ext_ex\<lparr>normalized_container := PyList\<rparr>"

definition dvl_ex :: dvl_msg where
  "dvl_ex = \<lparr>dvl_altitude = 1\<rparr>"

definition swath_nan :: swath_structure where
  "swath_nan = \<lparr>swath_right = [NaN, NaN], swath_left = [NaN, NaN],
                 state = odometry_ex, altitude = 0\<rparr>"

definition ca_nan :: coordinate_array where
  "ca_nan = \<lparr>x_right = [0, 0], x_left = [0, 0], y_right = [0, 0], y_left = [0, 0],
             intensity_right = [NaN, NaN], intensity_left = [NaN, NaN]\<rparr>"

definition node_nan :: node where
  "node_nan = (node_ex 0 [])\<lparr>heap := (\<lambda>_. fresh_swath_ex)(0 := swath_nan),
                 current_altitude := 1,
                 buffer_processed_coordinate_array := [ca_nan]\<rparr>"

text \<open>
  A sonar message without samples, and the node after the first pose message and
  \<open>k\<close> rounds of that message and a tick.
\<close>

definition msg_empty :: sonar_msg where
  "msg_empty = \<lparr>data_zero = [], data_one = []\<rparr>"

definition node_empty :: "nat \<Rightarrow> addr list \<Rightarrow> node" where
  "node_empty k q =
     \<lparr>side_scan_data = ssd_ex,
      heap = (\<lambda>_. fresh_swath_ex),
      current_swath = 0,
      current_altitude = 0,
      current_state = odometry_ex,
      state_initialized = True,
      buffer_unprocessed_swaths = q,
      buffer_processed_coordinate_array = replicate k ca_empty,
      processed_frame_counter = 1,
      stored_frames = []\<rparr>"

text \<open>
  A geometry of resolution 3, a sonar message of two samples per channel that arrives
  at altitude 4, and a later altitude message of \<open>3 / 2\<close>; \<open>node_cap\<close> is the node
  with that swath queued and \<open>node_cap_done\<close> the node after the later message and a
  tick.
\<close>

definition ssd_cap :: side_scan_data where
  "ssd_cap = \<lparr>theta = pi / 6, alpha = 0, res = 3, nSamples = 1\<rparr>"

definition msg_cap :: sonar_msg where
  "msg_cap = \<lparr>data_zero = [[10], [20]], data_one = [[30], [40]]\<rparr>"

definition dvl_cap :: dvl_msg where
  "dvl_cap = \<lparr>dvl_altitude = 4\<rparr>"

definition dvl_late :: dvl_msg where
  "dvl_late = \<lparr>dvl_altitude = 3 / 2\<rparr>"

definition node_cap :: node where
  "node_cap =
     sonar_sub msg_cap
       (dvl_sub dvl_cap (state_sub odometry_ex (init ssd_cap fresh_swath_ex odometry_ex)))"

definition node_cap_done :: node where
  "node_cap_done =
     \<lparr>side_scan_data = ssd_cap,
      heap = (\<lambda>_. fresh_swath_ex)
               (0 := \<lparr>swath_right = [Val 20, Val 20], swath_left = [Val 40, Val 40],
                       state = odometry_ex, altitude = 4\<rparr>),
      current_swath = 0,
      current_altitude = 3 / 2,
      current_state = odometry_ex,
      state_initialized = True,
      buffer_unprocessed_swaths = [],
      buffer_processed_coordinate_array =
        [\<lparr>x_right = [0, 0], x_left = [0, 0], y_right = [0, 0], y_left = [0, 0],
          intensity_right = [Val 20, Val 20], intensity_left = [Val 40, Val 40]\<rparr>],
      processed_frame_counter = 1,
      stored_frames = []\<rparr>"

section \<open>Properties of blind-zone removal\<close>

lemma bind_err_Inr [simp]: "bind_err (Inr x) f = f x"
  by (simp add: bind_err_def)

lemma bind_err_Inl [simp]: "bind_err (Inl e) f = Inl e"
  by (simp add: bind_err_def)

lemma bind_err_eq_Inr:
  "bind_err m f = Inr y \<longleftrightarrow> (\<exists>x. m = Inr x \<and> f x = Inr y)"
  by (cases m) simp_all

lemma slice_length_le: "slice_length i n \<le> n"
  unfolding slice_length_def by (cases "0 \<le> i") simp_all

lemma slice_length_in_range: "0 \<le> i \<Longrightarrow> i \<le> int n \<Longrightarrow> slice_length i n = nat i"
  by (simp add: slice_length_def)

lemma assign_prefix_in_range:
  assumes "0 \<le> i" and "i \<le> int (length xs)"
  shows "assign_prefix kind i xs = Inr (replicate (nat i) NaN @ drop (nat i) xs)"
  using assms by (cases kind) (simp_all add: slice_length_in_range Let_def)

lemma assign_prefix_idem:
  assumes "assign_prefix kind i xs = Inr ys"
  shows "assign_prefix kind i ys = Inr ys"
proof (cases kind)
  case PyList
  then have ys: "ys = replicate (nat i) NaN @ drop (slice_length i (length xs)) xs"
    using assms by simp
  show ?thesis
  proof (cases "0 \<le> i")
    case True
    then have "slice_length i (length ys) = nat i"
      by (simp add: ys slice_length_def)
    then show ?thesis
      using PyList by (simp add: ys)
  next
    case False
    then have "slice_length i (length ys) = 0"
      by (simp add: ys slice_length_def)
    then show ?thesis
      using PyList False by (simp add: ys)
  qed
next
  case NdArray
  define k where "k = slice_length i (length xs)"
  have ok: "nat i = k \<or> nat i = 1" and ys: "ys = replicate k NaN @ drop k xs"
    using assms NdArray by (simp_all add: k_def Let_def split: if_splits)
  have kle: "k \<le> length xs"
    by (simp add: k_def slice_length_le)
  then have len: "length ys = length xs"
    by (simp add: ys)
  have "slice_length i (length ys) = k"
    by (simp add: len k_def)
  then show ?thesis
    using NdArray ok by (simp add: ys Let_def)
qed


text \<open>
  Claim C4. The boundary index is not clamped. When the index \<open>i\<close> computed from the
  altitude lies between 0 and the channel's length, exactly the \<open>i\<close> leading samples
  are replaced by the missing-value marker, the other samples are kept and the length
  of the channel is unchanged.
\<close>

theorem blind_zone_removal_in_range:
  assumes "index_FBR ssd a = Inr i" and "0 \<le> i" and "i \<le> int (length swath)"
  shows "blind_zone_removal ssd kind a swath
           = Inr (replicate (nat i) NaN @ drop (nat i) swath)
         \<and> length (replicate (nat i) NaN @ drop (nat i) swath) = length swath"
  using assms by (simp add: blind_zone_removal_def assign_prefix_in_range)

lemma index_FBR_ex: "index_FBR ssd_ex 1 = Inr 2"
  by (simp add: index_FBR_def ssd_ex_def sin_30)

theorem blind_zone_removal_in_range_witness:
  "index_FBR ssd_ex 1 = Inr 2
   \<and> blind_zone_removal ssd_ex NdArray 1 [Val 5, Val 6, Val 7] = Inr [NaN, NaN, Val 7]
   \<and> blind_zone_removal ssd_ex PyList 1 [Val 5, Val 6, Val 7] = Inr [NaN, NaN, Val 7]"
  using blind_zone_removal_in_range[OF index_FBR_ex, of "[Val 5, Val 6, Val 7]" NdArray]
    blind_zone_removal_in_range[OF index_FBR_ex, of "[Val 5, Val 6, Val 7]" PyList]
  by (simp add: index_FBR_ex numeral_2_eq_2)

text \<open>
  At altitude 1 the example geometry gives the index 2. On a channel of one sample a
  Python list becomes two markers, and a numpy array raises \<^verbatim>\<open>ValueError\<close>: in neither
  case is the result the channel with \<open>min 2 1 = 1\<close> marker.
\<close>

theorem blind_zone_removal_not_clamped:
  "blind_zone_removal ssd_ex PyList 1 [Val 5] = Inr [NaN, NaN]
   \<and> blind_zone_removal ssd_ex NdArray 1 [Val 5] = Inl ValueError"
  by (simp add: blind_zone_removal_def index_FBR_ex slice_length_def numeral_2_eq_2)

text \<open>
  Claim C9. Blind-zone removal is idempotent: applying it to its own result, with the
  same altitude, returns that result; when the first application raises, so does the
  composition.
\<close>

theorem blind_zone_removal_idempotent:
  "bind_err (blind_zone_removal ssd kind a swath) (blind_zone_removal ssd kind a)
     = blind_zone_removal ssd kind a swath"
proof (cases "index_FBR ssd a")
  case (Inl e)
  then show ?thesis by (simp add: blind_zone_removal_def)
next
  case (Inr i)
  show ?thesis
  proof (cases "assign_prefix kind i swath")
    case (Inl e)
    then show ?thesis using Inr by (simp add: blind_zone_removal_def)
  next
    case ys: (Inr ys)
    then show ?thesis
      using Inr assign_prefix_idem[OF ys] by (simp add: blind_zone_removal_def)
  qed
qed

theorem blind_zone_removal_idempotent_witness:
  "bind_err (blind_zone_removal ssd_ex NdArray 1 [Val 5, Val 6, Val 7])
     (blind_zone_removal ssd_ex NdArray 1) = Inr [NaN, NaN, Val 7]"
  using blind_zone_removal_idempotent[of ssd_ex NdArray 1 "[Val 5, Val 6, Val 7]"]
  by (simp add: blind_zone_removal_def index_FBR_ex slice_length_def numeral_2_eq_2)

section \<open>Properties of slant-range correction\<close>

lemma exact_bin_nonneg: "0 < r \<Longrightarrow> 0 \<le> exact_bin r a s"
  by (simp add: exact_bin_def)

lemma floor_bin_range:
  assumes "0 < r" and "s < n"
  shows "0 \<le> floor_bin r a n s" and "floor_bin r a n s < int n"
  using assms exact_bin_nonneg[of r a s] by (simp_all add: floor_bin_def)

lemma ceiling_bin_range:
  assumes "0 < r" and "s < n"
  shows "0 \<le> ceiling_bin r a n s" and "ceiling_bin r a n s < int n"
proof -
  have "0 \<le> \<lceil>exact_bin r a s\<rceil>"
    using exact_bin_nonneg[OF assms(1), of a s] by (simp add: ceiling_le_iff le_ceiling_iff)
  then show "0 \<le> ceiling_bin r a n s" using assms by (simp add: ceiling_bin_def)
  show "ceiling_bin r a n s < int n" using assms by (simp add: ceiling_bin_def)
qed

lemma py_index_in_range: "0 \<le> i \<Longrightarrow> i < int (length xs) \<Longrightarrow> py_index xs i = Inr (xs ! nat i)"
  by (simp add: py_index_def)

lemma corrected_intensity_value_ok:
  assumes "0 < r" and "s < length swath"
  shows "corrected_intensity_value r a (length swath) swath s =
     Inr (sample_add (sample_scale (weight_2 r a (length swath) s) (swath ! nat (floor_bin r a (length swath) s)))
                     (sample_scale (weight_1 r a (length swath) s) (swath ! nat (ceiling_bin r a (length swath) s))))"
  using assms floor_bin_range[OF assms] ceiling_bin_range[OF assms]
  by (simp add: corrected_intensity_value_def py_index_in_range)

lemma slant_loop_ok:
  assumes "0 < r" and "length right = n" and "length left = n" and "\<forall>s \<in> set ss. s < n"
  shows "slant_loop r a n right left ss =
    Inr (map (\<lambda>s. sample_add (sample_scale (weight_2 r a n s) (right ! nat (floor_bin r a n s)))
                     (sample_scale (weight_1 r a n s) (right ! nat (ceiling_bin r a n s)))) ss,
         map (\<lambda>s. sample_add (sample_scale (weight_2 r a n s) (left ! nat (floor_bin r a n s)))
                     (sample_scale (weight_1 r a n s) (left ! nat (ceiling_bin r a n s)))) ss)"
  using assms(4)
proof (induction ss)
  case Nil
  then show ?case by simp
next
  case (Cons s ss)
  then have s: "s < n" by simp
  have r: "corrected_intensity_value r a n right s = Inr (sample_add (sample_scale (weight_2 r a n s) (right ! nat (floor_bin r a n s)))
                     (sample_scale (weight_1 r a n s) (right ! nat (ceiling_bin r a n s))))"
    using corrected_intensity_value_ok[of r s right a] assms s by simp
  have l: "corrected_intensity_value r a n left s = Inr (sample_add (sample_scale (weight_2 r a n s) (left ! nat (floor_bin r a n s)))
                     (sample_scale (weight_1 r a n s) (left ! nat (ceiling_bin r a n s))))"
    using corrected_intensity_value_ok[of r s left a] assms s by simp
  show ?case using Cons r l by simp
qed


text \<open>
  Claim C6. For a positive resolution, a swath of \<open>N\<close> samples per channel and any
  altitude, slant-range correction returns, at every index \<open>s < N\<close> of either channel,
  \<open>w2 * sample[floor_bin] + w1 * sample[ceiling_bin]\<close> with
  \<open>exact_bin = sqrt ((res * s)\<^sup>2 + altitude\<^sup>2) / res\<close>,
  \<open>floor_bin = min (floor exact_bin) (N - 1)\<close>,
  \<open>ceiling_bin = min (ceiling exact_bin) (N - 1)\<close>, \<open>w1 = exact_bin - floor_bin\<close> and
  \<open>w2 = 1 - w1\<close>; both bins are valid indices, and at \<open>s = 0\<close> with a non-negative
  altitude \<open>exact_bin = altitude / res\<close>.
\<close>

theorem slant_range_correction_blend:
  fixes ssd :: side_scan_data and sw :: swath_structure and N :: nat
  defines "eb \<equiv> \<lambda>s::nat. sqrt ((res ssd * real s)\<^sup>2 + (altitude sw)\<^sup>2) / res ssd"
  defines "fb \<equiv> \<lambda>s. min \<lfloor>eb s\<rfloor> (int N - 1)"
  defines "cb \<equiv> \<lambda>s. min \<lceil>eb s\<rceil> (int N - 1)"
  defines "w1 \<equiv> \<lambda>s. eb s - real_of_int (fb s)"
  defines "w2 \<equiv> \<lambda>s. 1 - w1 s"
  assumes "0 < res ssd"
    and "length (swath_right sw) = N" and "length (swath_left sw) = N"
  shows "slant_range_correction ssd sw =
           Inr (sw\<lparr>
             swath_right := map (\<lambda>s. sample_add (sample_scale (w2 s) (swath_right sw ! nat (fb s)))
                                               (sample_scale (w1 s) (swath_right sw ! nat (cb s))))
                              [0..<N],
             swath_left := map (\<lambda>s. sample_add (sample_scale (w2 s) (swath_left sw ! nat (fb s)))
                                              (sample_scale (w1 s) (swath_left sw ! nat (cb s))))
                             [0..<N]\<rparr>)
         \<and> (\<forall>s < N. 0 \<le> fb s \<and> fb s < int N \<and> 0 \<le> cb s \<and> cb s < int N)
         \<and> (0 \<le> altitude sw \<longrightarrow> eb 0 = altitude sw / res ssd)"
proof -
  have eb: "eb = exact_bin (res ssd) (altitude sw)"
    by (simp add: eb_def exact_bin_def fun_eq_iff)
  have fb: "fb = floor_bin (res ssd) (altitude sw) N"
    by (simp add: fb_def floor_bin_def eb fun_eq_iff)
  have cb: "cb = ceiling_bin (res ssd) (altitude sw) N"
    by (simp add: cb_def ceiling_bin_def eb fun_eq_iff)
  have w1: "w1 = weight_1 (res ssd) (altitude sw) N"
    by (simp add: w1_def weight_1_def eb fb fun_eq_iff)
  have w2: "w2 = weight_2 (res ssd) (altitude sw) N"
    by (simp add: w2_def weight_2_def w1 fun_eq_iff)
  have loop: "slant_loop (res ssd) (altitude sw) N (swath_right sw) (swath_left sw) [0..<N] =
      Inr (map (\<lambda>s. sample_add (sample_scale (w2 s) (swath_right sw ! nat (fb s)))
                                (sample_scale (w1 s) (swath_right sw ! nat (cb s)))) [0..<N],
           map (\<lambda>s. sample_add (sample_scale (w2 s) (swath_left sw ! nat (fb s)))
                                (sample_scale (w1 s) (swath_left sw ! nat (cb s)))) [0..<N])"
    unfolding fb cb w1 w2
    by (rule slant_loop_ok) (use assms in simp_all)
  have first: "slant_range_correction ssd sw =
           Inr (sw\<lparr>
             swath_right := map (\<lambda>s. sample_add (sample_scale (w2 s) (swath_right sw ! nat (fb s)))
                                               (sample_scale (w1 s) (swath_right sw ! nat (cb s))))
                              [0..<N],
             swath_left := map (\<lambda>s. sample_add (sample_scale (w2 s) (swath_left sw ! nat (fb s)))
                                              (sample_scale (w1 s) (swath_left sw ! nat (cb s))))
                             [0..<N]\<rparr>)"
    using loop assms(7) by (simp add: slant_range_correction_def Let_def)
  have second: "\<forall>s < N. 0 \<le> fb s \<and> fb s < int N \<and> 0 \<le> cb s \<and> cb s < int N"
  proof (intro allI impI)
    fix s assume "s < N"
    then show "0 \<le> fb s \<and> fb s < int N \<and> 0 \<le> cb s \<and> cb s < int N"
      unfolding fb cb
      using floor_bin_range[OF assms(6), of s N "altitude sw"]
        ceiling_bin_range[OF assms(6), of s N "altitude sw"]
      by simp
  qed
  have third: "0 \<le> altitude sw \<longrightarrow> eb 0 = altitude sw / res ssd"
    by (simp add: eb_def)
  show ?thesis
    using first second third by (intro conjI)
qed

lemma sqrt16: "sqrt 16 = 4" and sqrt25: "sqrt 25 = 5"
  using real_sqrt_abs[of 4] real_sqrt_abs[of 5] by simp_all

lemma upt_0_2: "[0..<2] = [0, 1]"
  by (simp add: upt_conv_Cons)

lemma floor_4_3: "\<lfloor>4 / 3 :: real\<rfloor> = 1"
  by (rule floor_unique) simp_all
lemma floor_5_3: "\<lfloor>5 / 3 :: real\<rfloor> = 1"
  by (rule floor_unique) simp_all
lemma ceil_4_3: "\<lceil>4 / 3 :: real\<rceil> = 2"
  by (rule ceiling_unique) simp_all
lemma ceil_5_3: "\<lceil>5 / 3 :: real\<rceil> = 2"
  by (rule ceiling_unique) simp_all


theorem slant_range_correction_blend_witness:
  "slant_range_correction \<lparr>theta = 0, alpha = 0, res = 3, nSamples = 2\<rparr>
     \<lparr>swath_right = [Val 10, Val 20], swath_left = [NaN, Val 40],
      state = odometry_ex, altitude = 4\<rparr>
   = Inr \<lparr>swath_right = [Val 20, Val 20], swath_left = [Val 40, Val 40],
          state = odometry_ex, altitude = 4\<rparr>"
  using slant_range_correction_blend[of "\<lparr>theta = 0, alpha = 0, res = 3, nSamples = 2\<rparr>"
     "\<lparr>swath_right = [Val 10, Val 20], swath_left = [NaN, Val 40],
       state = odometry_ex, altitude = 4\<rparr>" 2]
  by (simp add: upt_0_2 sqrt16 sqrt25 floor_4_3 floor_5_3 ceil_4_3 ceil_5_3)

section \<open>Properties of the tick\<close>

lemma store_processed_frames_Inr:
  assumes "store_processed_frames ext us vs ivs mean filtered st = Inr st'"
  shows "st' = st\<lparr>stored_frames := stored_frames st @
                   [\<lparr>frame_number = processed_frame_counter st, raw_table = zip us (zip vs ivs),
                     knn_table = mean, knn_filtered_table = filtered\<rparr>],
                 processed_frame_counter := processed_frame_counter st + 1\<rparr>"
  using assms
  by (auto simp: store_processed_frames_def Let_def bind_err_eq_Inr)

lemma construct_frame_Inr:
  assumes "construct_frame ext st = Inr (fp, st')"
  shows "flatten_frames (buffer_processed_coordinate_array st)
           = (frame_u fp, frame_v fp, frame_intensity_values fp)"
    and "st' = st\<lparr>stored_frames := stored_frames st @
                   [\<lparr>frame_number = processed_frame_counter st,
                     raw_table = zip (frame_u fp) (zip (frame_v fp) (frame_intensity_values fp)),
                     knn_table = knn_intensity_mean fp,
                     knn_filtered_table = knn_filtered_image fp\<rparr>],
                 processed_frame_counter := processed_frame_counter st + 1\<rparr>"
  using assms
  unfolding construct_frame_def
  by (auto simp: Let_def bind_err_eq_Inr split: prod.splits dest!: store_processed_frames_Inr)

lemma run_full_empty:
  "buffer_unprocessed_swaths st = [] \<Longrightarrow> run_full_pre_processing_pipeline ext st = Inr st"
  by (simp add: run_full_pre_processing_pipeline_def)

lemma run_full_Inr:
  assumes "run_full_pre_processing_pipeline ext st = Inr st'"
    and "buffer_unprocessed_swaths st \<noteq> []"
  shows "\<exists>st1 r1 l1 r2 l2 sw' ca.
      (if length (buffer_processed_coordinate_array st) mod 100 = 0
           \<and> length (buffer_processed_coordinate_array st) \<noteq> 0
       then \<exists>fp st0. construct_frame ext st = Inr (fp, st0)
              \<and> st1 = st0\<lparr>buffer_processed_coordinate_array :=
                            drop 50 (buffer_processed_coordinate_array st0)\<rparr>
       else st1 = st)
    \<and> swath_normalization ext (swath_right (heap st1 (hd (buffer_unprocessed_swaths st1)))) = Inr r1
    \<and> swath_normalization ext (swath_left (heap st1 (hd (buffer_unprocessed_swaths st1)))) = Inr l1
    \<and> blind_zone_removal (side_scan_data st1) (normalized_container ext) (current_altitude st1) r1 = Inr r2
    \<and> blind_zone_removal (side_scan_data st1) (normalized_container ext) (current_altitude st1) l1 = Inr l2
    \<and> slant_range_correction (side_scan_data st1)
         ((heap st1 (hd (buffer_unprocessed_swaths st1)))\<lparr>swath_right := r2, swath_left := l2\<rparr>) = Inr sw'
    \<and> pose_correction (side_scan_data st1) sw' = Inr ca
    \<and> st' = st1\<lparr>heap := (heap st1)(hd (buffer_unprocessed_swaths st1) := sw'),
                 buffer_processed_coordinate_array := buffer_processed_coordinate_array st1 @ [ca],
                 buffer_unprocessed_swaths := tl (buffer_unprocessed_swaths st1)\<rparr>"
  using assms
  unfolding run_full_pre_processing_pipeline_def
  by (auto simp: Let_def bind_err_eq_Inr split: if_splits prod.splits)

lemma construct_frame_frame:
  assumes "construct_frame ext st = Inr (fp, st0)"
  shows "heap st0 = heap st" and "buffer_unprocessed_swaths st0 = buffer_unprocessed_swaths st"
    and "buffer_processed_coordinate_array st0 = buffer_processed_coordinate_array st"
    and "current_altitude st0 = current_altitude st"
    and "side_scan_data st0 = side_scan_data st"
    and "processed_frame_counter st0 = processed_frame_counter st + 1"
    and "length (stored_frames st0) = Suc (length (stored_frames st))"
  using construct_frame_Inr(2)[OF assms] by simp_all

lemma assign_prefix_length:
  assumes "assign_prefix kind i xs = Inr ys" and "assign_prefix kind i xs' = Inr ys'"
    and "length xs = length xs'"
  shows "length ys = length ys'"
  using assms by (cases kind) (auto simp: Let_def split: if_splits)

lemma blind_zone_removal_length:
  assumes "blind_zone_removal ssd kind a xs = Inr ys"
    and "blind_zone_removal ssd kind a xs' = Inr ys'"
    and "length xs = length xs'"
  shows "length ys = length ys'"
  using assms unfolding blind_zone_removal_def
  by (auto simp: bind_err_eq_Inr intro: assign_prefix_length)

lemma slant_loop_length:
  assumes "slant_loop r a n right left ss = Inr (rs, ls)"
  shows "length rs = length ss \<and> length ls = length ss"
  using assms
proof (induction ss arbitrary: rs ls)
  case Nil
  then show ?case by simp
next
  case (Cons s ss)
  then obtain rs' ls' cr cl where
     "slant_loop r a n right left ss = Inr (rs', ls')" and "rs = cr # rs'" and "ls = cl # ls'"
    by (auto simp: bind_err_eq_Inr)
  then show ?case using Cons.IH by simp
qed

lemma slant_range_correction_length:
  assumes "slant_range_correction ssd sw = Inr sw'"
  shows "length (swath_right sw') = length (swath_right sw)"
    and "length (swath_left sw') = length (swath_right sw)"
    and "altitude sw' = altitude sw" and "state sw' = state sw"
  using assms unfolding slant_range_correction_def
  by (auto simp: Let_def bind_err_eq_Inr dest: slant_loop_length)

lemma pose_correction_rows:
  assumes "pose_correction ssd sw = Inr ca"
  shows "length (x_right ca) = length (swath_right sw)"
    and "length (x_left ca) = length (swath_right sw)"
    and "length (y_right ca) = length (swath_right sw)"
    and "length (y_left ca) = length (swath_right sw)"
    and "length (intensity_right ca) = length (swath_right sw)"
    and "length (intensity_left ca) = length (swath_right sw)"
    and "intensity_right ca = swath_right sw" and "intensity_left ca = swath_left sw"
  using assms unfolding pose_correction_def
  by (auto simp: Let_def split: prod.splits if_splits)

lemma handlers_buffer:
  "buffer_processed_coordinate_array (sonar_sub smsg st) = buffer_processed_coordinate_array st"
  "buffer_processed_coordinate_array (dvl_sub dmsg st) = buffer_processed_coordinate_array st"
  "buffer_processed_coordinate_array (state_sub omsg st) = buffer_processed_coordinate_array st"
  by (simp_all add: sonar_sub_def dvl_sub_def state_sub_def Let_def)

lemma run_full_pre:
  assumes "run_full_pre_processing_pipeline ext st = Inr st'"
    and "buffer_unprocessed_swaths st \<noteq> []"
  obtains st1 r1 l1 r2 l2 sw' ca where
    "if length (buffer_processed_coordinate_array st) mod 100 = 0
           \<and> length (buffer_processed_coordinate_array st) \<noteq> 0
       then \<exists>fp st0. construct_frame ext st = Inr (fp, st0)
              \<and> st1 = st0\<lparr>buffer_processed_coordinate_array :=
                            drop 50 (buffer_processed_coordinate_array st0)\<rparr>
       else st1 = st"
    and "heap st1 = heap st" and "buffer_unprocessed_swaths st1 = buffer_unprocessed_swaths st"
    and "current_altitude st1 = current_altitude st" and "side_scan_data st1 = side_scan_data st"
    and "swath_normalization ext (swath_right (heap st1 (hd (buffer_unprocessed_swaths st1)))) = Inr r1"
    and "swath_normalization ext (swath_left (heap st1 (hd (buffer_unprocessed_swaths st1)))) = Inr l1"
    and "blind_zone_removal (side_scan_data st1) (normalized_container ext) (current_altitude st1) r1 = Inr r2"
    and "blind_zone_removal (side_scan_data st1) (normalized_container ext) (current_altitude st1) l1 = Inr l2"
    and "slant_range_correction (side_scan_data st1)
         ((heap st1 (hd (buffer_unprocessed_swaths st1)))\<lparr>swath_right := r2, swath_left := l2\<rparr>) = Inr sw'"
    and "pose_correction (side_scan_data st1) sw' = Inr ca"
    and "st' = st1\<lparr>heap := (heap st1)(hd (buffer_unprocessed_swaths st1) := sw'),
                 buffer_processed_coordinate_array := buffer_processed_coordinate_array st1 @ [ca],
                 buffer_unprocessed_swaths := tl (buffer_unprocessed_swaths st1)\<rparr>"
proof -
  from run_full_Inr[OF assms] obtain st1 r1 l1 r2 l2 sw' ca where
    pre: "if length (buffer_processed_coordinate_array st) mod 100 = 0
           \<and> length (buffer_processed_coordinate_array st) \<noteq> 0
       then \<exists>fp st0. construct_frame ext st = Inr (fp, st0)
              \<and> st1 = st0\<lparr>buffer_processed_coordinate_array :=
                            drop 50 (buffer_processed_coordinate_array st0)\<rparr>
       else st1 = st"
    and rest: "swath_normalization ext (swath_right (heap st1 (hd (buffer_unprocessed_swaths st1)))) = Inr r1"
     "swath_normalization ext (swath_left (heap st1 (hd (buffer_unprocessed_swaths st1)))) = Inr l1"
     "blind_zone_removal (side_scan_data st1) (normalized_container ext) (current_altitude st1) r1 = Inr r2"
     "blind_zone_removal (side_scan_data st1) (normalized_container ext) (current_altitude st1) l1 = Inr l2"
     "slant_range_correction (side_scan_data st1)
         ((heap st1 (hd (buffer_unprocessed_swaths st1)))\<lparr>swath_right := r2, swath_left := l2\<rparr>) = Inr sw'"
     "pose_correction (side_scan_data st1) sw' = Inr ca"
     "st' = st1\<lparr>heap := (heap st1)(hd (buffer_unprocessed_swaths st1) := sw'),
                 buffer_processed_coordinate_array := buffer_processed_coordinate_array st1 @ [ca],
                 buffer_unprocessed_swaths := tl (buffer_unprocessed_swaths st1)\<rparr>"
    by blast
  have fr: "heap st1 = heap st \<and> buffer_unprocessed_swaths st1 = buffer_unprocessed_swaths st
     \<and> current_altitude st1 = current_altitude st \<and> side_scan_data st1 = side_scan_data st"
  proof (cases "length (buffer_processed_coordinate_array st) mod 100 = 0
           \<and> length (buffer_processed_coordinate_array st) \<noteq> 0")
    case True
    then obtain fp st0 where c: "construct_frame ext st = Inr (fp, st0)"
      and s1: "st1 = st0\<lparr>buffer_processed_coordinate_array :=
                            drop 50 (buffer_processed_coordinate_array st0)\<rparr>"
      using pre unfolding if_P[OF True] by blast
    show ?thesis
      using construct_frame_frame[OF c] by (simp add: s1)
  next
    case False
    have "st1 = st" using pre unfolding if_not_P[OF False] .
    then show ?thesis by simp
  qed
  show ?thesis
    using that[of st1 r1 l1 r2 l2 sw' ca] pre rest fr by blast
qed

lemma run_full_buffer_due:
  assumes "run_full_pre_processing_pipeline ext st = Inr st'"
    and "buffer_unprocessed_swaths st \<noteq> []"
    and due: "length (buffer_processed_coordinate_array st) mod 100 = 0
           \<and> length (buffer_processed_coordinate_array st) \<noteq> 0"
  shows "\<exists>ca fp st0. construct_frame ext st = Inr (fp, st0)
     \<and> buffer_processed_coordinate_array st' = drop 50 (buffer_processed_coordinate_array st) @ [ca]
     \<and> stored_frames st' = stored_frames st0
     \<and> processed_frame_counter st' = processed_frame_counter st + 1"
proof -
  from run_full_pre[OF assms(1,2)] obtain st1 sw' ca where
    pre: "if length (buffer_processed_coordinate_array st) mod 100 = 0
           \<and> length (buffer_processed_coordinate_array st) \<noteq> 0
       then \<exists>fp st0. construct_frame ext st = Inr (fp, st0)
              \<and> st1 = st0\<lparr>buffer_processed_coordinate_array :=
                            drop 50 (buffer_processed_coordinate_array st0)\<rparr>
       else st1 = st"
    and post: "st' = st1\<lparr>heap := (heap st1)(hd (buffer_unprocessed_swaths st1) := sw'),
                 buffer_processed_coordinate_array := buffer_processed_coordinate_array st1 @ [ca],
                 buffer_unprocessed_swaths := tl (buffer_unprocessed_swaths st1)\<rparr>"
    by metis
  obtain fp st0 where c: "construct_frame ext st = Inr (fp, st0)"
      and s1: "st1 = st0\<lparr>buffer_processed_coordinate_array :=
                            drop 50 (buffer_processed_coordinate_array st0)\<rparr>"
    using pre unfolding if_P[OF due] by blast
  have "buffer_processed_coordinate_array st' = drop 50 (buffer_processed_coordinate_array st) @ [ca]"
    and "stored_frames st' = stored_frames st0"
    and "processed_frame_counter st' = processed_frame_counter st + 1"
    using construct_frame_frame[OF c] by (simp_all add: post s1)
  then show ?thesis using c by blast
qed

lemma run_full_buffer_not_due:
  assumes "run_full_pre_processing_pipeline ext st = Inr st'"
    and "buffer_unprocessed_swaths st \<noteq> []"
    and not_due: "\<not> (length (buffer_processed_coordinate_array st) mod 100 = 0
           \<and> length (buffer_processed_coordinate_array st) \<noteq> 0)"
  shows "\<exists>ca. buffer_processed_coordinate_array st' = buffer_processed_coordinate_array st @ [ca]
     \<and> stored_frames st' = stored_frames st
     \<and> processed_frame_counter st' = processed_frame_counter st"
proof -
  from run_full_pre[OF assms(1,2)] obtain st1 sw' ca where
    pre: "if length (buffer_processed_coordinate_array st) mod 100 = 0
           \<and> length (buffer_processed_coordinate_array st) \<noteq> 0
       then \<exists>fp st0. construct_frame ext st = Inr (fp, st0)
              \<and> st1 = st0\<lparr>buffer_processed_coordinate_array :=
                            drop 50 (buffer_processed_coordinate_array st0)\<rparr>
       else st1 = st"
    and post: "st' = st1\<lparr>heap := (heap st1)(hd (buffer_unprocessed_swaths st1) := sw'),
                 buffer_processed_coordinate_array := buffer_processed_coordinate_array st1 @ [ca],
                 buffer_unprocessed_swaths := tl (buffer_unprocessed_swaths st1)\<rparr>"
    by metis
  have "st1 = st" using pre unfolding if_not_P[OF not_due] .
  then show ?thesis by (simp add: post)
qed

lemma reachable_buffer_le:
  assumes "reachable ext st"
  shows "length (buffer_processed_coordinate_array st) \<le> 100"
  using assms
proof (induction rule: reachable.induct)
  case (reach_init ssd fresh_swath fresh_odometry)
  show ?case by (simp add: init_def)
next
  case (reach_sonar st smsg)
  then show ?case by (simp add: handlers_buffer)
next
  case (reach_dvl st dmsg)
  then show ?case by (simp add: handlers_buffer)
next
  case (reach_state st omsg)
  then show ?case by (simp add: handlers_buffer)
next
  case (reach_tick st st')
  show ?case
  proof (cases "buffer_unprocessed_swaths st = []")
    case True
    then show ?thesis using reach_tick by (simp add: run_full_empty)
  next
    case False
    show ?thesis
    proof (cases "length (buffer_processed_coordinate_array st) mod 100 = 0
           \<and> length (buffer_processed_coordinate_array st) \<noteq> 0")
      case True
      then obtain ca where
        "buffer_processed_coordinate_array st' = drop 50 (buffer_processed_coordinate_array st) @ [ca]"
        using run_full_buffer_due[OF reach_tick(2) False True] by blast
      then show ?thesis using reach_tick.IH by simp
    next
      case nd: False
      then obtain ca where
        b: "buffer_processed_coordinate_array st' = buffer_processed_coordinate_array st @ [ca]"
        using run_full_buffer_not_due[OF reach_tick(2) False nd] by blast
      have "length (buffer_processed_coordinate_array st) \<noteq> 100"
        using nd by auto
      then show ?thesis using reach_tick.IH b by simp
    qed
  qed
qed

section \<open>The example run\<close>

lemma index_FBR_ex0: "index_FBR ssd_ex 0 = Inr 0"
  by (simp add: index_FBR_def ssd_ex_def sin_30)

lemma blind_zone_ex0: "blind_zone_removal ssd_ex NdArray 0 xs = Inr xs"
  by (simp add: blind_zone_removal_def index_FBR_ex0 slice_length_def)

lemma slant_ex: "slant_range_correction ssd_ex swath_ex = Inr swath_ex"
  by (simp add: slant_range_correction_def swath_ex_def ssd_ex_def corrected_intensity_value_def
      py_index_def floor_bin_def ceiling_bin_def exact_bin_def weight_1_def weight_2_def)

lemma pitch_yaw_ex: "pitch_yaw_from_quaternion 1 0 0 0 = (0, 0)"
  by (simp add: pitch_yaw_from_quaternion_def atan2_def)

lemma pose_ex: "pose_correction ssd_ex swath_ex = Inr ca_ex"
  by (simp add: pose_correction_def swath_ex_def ssd_ex_def odometry_ex_def pitch_yaw_ex ca_ex_def)

lemma sonar_node_ex: "sonar_sub msg_ex (node_ex k []) = node_ex k [0]"
  by (simp add: sonar_sub_def node_ex_def msg_ex_def swath_ex_def int_from_bytes_big_def fresh_swath_ex_def)

lemma tick_node_ex:
  assumes "k < 100"
  shows "run_full_pre_processing_pipeline ext_ex (node_ex k [0]) = Inr (node_ex (Suc k) [])"
proof (cases "k = 0")
  case True
  then show ?thesis
    by (simp add: run_full_pre_processing_pipeline_def node_ex_def ext_ex_def blind_zone_ex0
        Let_def slant_ex[unfolded swath_ex_def] pose_ex[unfolded swath_ex_def] swath_ex_def)
next
  case False
  then have "k mod 100 \<noteq> 0" using assms by simp
  then show ?thesis
    by (simp add: run_full_pre_processing_pipeline_def node_ex_def ext_ex_def blind_zone_ex0
        Let_def slant_ex[unfolded swath_ex_def] pose_ex[unfolded swath_ex_def] swath_ex_def
        replicate_append_same)
qed

lemma init_ex: "sonar_sub msg_ex (state_sub odometry_ex (init ssd_ex fresh_swath_ex odometry_ex)) = node_ex 0 [0]"
  by (simp add: sonar_sub_def state_sub_def init_def node_ex_def msg_ex_def swath_ex_def int_from_bytes_big_def fresh_swath_ex_def)

lemma reachable_node_ex: "k \<le> 100 \<Longrightarrow> reachable ext_ex (node_ex k [0])"
proof (induction k)
  case 0
  show ?case
    using reach_sonar[OF reach_state[OF reach_init], of ext_ex msg_ex odometry_ex ssd_ex fresh_swath_ex odometry_ex]
    by (simp add: init_ex)
next
  case (Suc k)
  then have "reachable ext_ex (node_ex k [0])" and "k < 100" by simp_all
  then have "reachable ext_ex (node_ex (Suc k) [])"
    using reach_tick tick_node_ex by blast
  then show ?case
    using reach_sonar[of ext_ex "node_ex (Suc k) []" msg_ex] by (simp add: sonar_node_ex)
qed

lemma fold_min_le: "fold min r x \<le> (x::real)"
proof (induction r arbitrary: x)
  case Nil
  show ?case by simp
next
  case (Cons a r)
  have "fold min r (min a x) \<le> min a x" by (rule Cons.IH)
  also have "min a x \<le> x" by simp
  finally show ?case by simp
qed

lemma fold_max_ge: "(x::real) \<le> fold max r x"
proof (induction r arbitrary: x)
  case Nil
  show ?case by simp
next
  case (Cons a r)
  have "x \<le> max a x" by simp
  also have "max a x \<le> fold max r (max a x)" by (rule Cons.IH)
  finally show ?case by simp
qed

lemma py_min_max:
  assumes "xs \<noteq> []"
  obtains lo hi where "py_min xs = Inr lo" and "py_max xs = Inr hi" and "lo \<le> hi"
proof -
  obtain x r where xs: "xs = x # r" using assms by (cases xs) auto
  have "fold min r x \<le> fold max r x"
    using fold_min_le[of r x] fold_max_ge[of x r] by simp
  then show ?thesis
    using that by (simp add: py_min_def py_max_def xs)
qed

lemma py_min_Nil: "py_min [] = Inl ValueError"
  by (simp add: py_min_def)

lemma linspace_ok:
  assumes "lo \<le> hi"
  obtains l where "linspace lo hi (py_int (hi - lo)) = Inr l"
proof -
  have "0 \<le> py_int (hi - lo)" using assms by (simp add: py_int_def)
  then show ?thesis using that by (cases "py_int (hi - lo) = 1") (simp_all add: linspace_def)
qed

lemma construct_frame_ex:
  assumes fl: "flatten_frames (buffer_processed_coordinate_array st) = (us, vs, ivs)"
    and "us \<noteq> []" and "vs \<noteq> []"
  shows "\<exists>fp. construct_frame ext_ex st =
      Inr (fp, st\<lparr>stored_frames := stored_frames st @
                     [\<lparr>frame_number = processed_frame_counter st,
                       raw_table = zip us (zip vs ivs),
                       knn_table = [], knn_filtered_table = []\<rparr>],
                   processed_frame_counter := processed_frame_counter st + 1\<rparr>)"
proof -
  have ne: "map uminus us \<noteq> []" using assms by simp
  obtain lo hi where u: "py_min (map uminus us) = Inr lo"
      "py_max (map uminus us) = Inr hi" "lo \<le> hi"
    using py_min_max[OF ne] by blast
  obtain lu where lu: "linspace lo hi (py_int (hi - lo)) = Inr lu"
    using linspace_ok[OF u(3)] by blast
  obtain lo' hi' where v: "py_min vs = Inr lo'" "py_max vs = Inr hi'" "lo' \<le> hi'"
    using py_min_max[OF assms(3)] by blast
  obtain lv where lv: "linspace lo' hi' (py_int (hi' - lo')) = Inr lv"
    using linspace_ok[OF v(3)] by blast
  show ?thesis
    unfolding construct_frame_def
    by (simp add: fl u v lu lv ext_ex_def store_processed_frames_def Let_def)
qed

lemma construct_frame_empty:
  assumes "fst (flatten_frames (buffer_processed_coordinate_array st)) = []"
  shows "construct_frame ext st = Inl ValueError"
  using assms unfolding construct_frame_def
  by (auto simp: py_min_Nil Let_def split: prod.splits)

lemma flatten_frames_Cons:
  "flatten_frames (ca # cas) =
     (x_right ca @ x_left ca @ fst (flatten_frames cas),
      y_right ca @ y_left ca @ fst (snd (flatten_frames cas)),
      intensity_left ca @ intensity_right ca @ snd (snd (flatten_frames cas)))"
  by (simp split: prod.splits)

lemma replicate_100: "replicate 100 x = x # replicate 99 x"
proof -
  have "(100::nat) = Suc 99" by simp
  then show ?thesis by (simp only: replicate_Suc)
qed

lemma construct_node_ex:
  "\<exists>fp. construct_frame ext_ex (node_ex 100 q) =
      Inr (fp, (node_ex 100 q)\<lparr>stored_frames := [stored_ex], processed_frame_counter := 2\<rparr>)"
proof -
  obtain us vs ivs where fl: "flatten_frames (replicate 100 ca_ex) = (us, vs, ivs)"
    by (cases "flatten_frames (replicate 100 ca_ex)") auto
  have "us = x_right ca_ex @ x_left ca_ex @ fst (flatten_frames (replicate 99 ca_ex))"
    and "vs = y_right ca_ex @ y_left ca_ex @ fst (snd (flatten_frames (replicate 99 ca_ex)))"
    using fl unfolding replicate_100 flatten_frames_Cons by simp_all
  then have ne: "us \<noteq> []" "vs \<noteq> []"
    by (simp_all add: ca_ex_def)
  have b: "buffer_processed_coordinate_array (node_ex 100 q) = replicate 100 ca_ex"
    and c: "processed_frame_counter (node_ex 100 q) = 1"
    and d: "stored_frames (node_ex 100 q) = []"
    by (simp_all add: node_ex_def)
  have f: "stored_ex = \<lparr>frame_number = 1, raw_table = zip us (zip vs ivs),
                         knn_table = [], knn_filtered_table = []\<rparr>"
    by (simp add: stored_ex_def fl)
  obtain fp where "construct_frame ext_ex (node_ex 100 q) =
      Inr (fp, (node_ex 100 q)\<lparr>stored_frames := stored_frames (node_ex 100 q) @
                     [\<lparr>frame_number = processed_frame_counter (node_ex 100 q),
                       raw_table = zip us (zip vs ivs),
                       knn_table = [], knn_filtered_table = []\<rparr>],
                   processed_frame_counter := processed_frame_counter (node_ex 100 q) + 1\<rparr>)"
    using construct_frame_ex[of "node_ex 100 q" us vs ivs] fl ne b by auto
  then have "construct_frame ext_ex (node_ex 100 q) =
      Inr (fp, (node_ex 100 q)\<lparr>stored_frames := [stored_ex], processed_frame_counter := 2\<rparr>)"
    by (simp add: c d f)
  then show ?thesis by blast
qed


lemma tick_node_ex_100:
  "run_full_pre_processing_pipeline ext_ex (node_ex 100 [0]) =
     Inr ((node_ex 51 [])\<lparr>stored_frames := [stored_ex], processed_frame_counter := 2\<rparr>)"
proof -
  obtain fp where c: "construct_frame ext_ex (node_ex 100 [0]) =
      Inr (fp, (node_ex 100 [0])\<lparr>stored_frames := [stored_ex], processed_frame_counter := 2\<rparr>)"
    using construct_node_ex by blast
  have "(51::nat) = Suc 50" by simp
  then have d: "replicate 51 ca_ex = ca_ex # replicate 50 ca_ex"
    by (simp only: replicate_Suc)
  have q: "buffer_unprocessed_swaths (node_ex 100 [0]) = [0]"
    and l: "length (buffer_processed_coordinate_array (node_ex 100 [0])) = 100"
    by (simp_all add: node_ex_def)
  have step1: "run_full_pre_processing_pipeline ext_ex (node_ex 100 [0]) =
     run_full_pre_processing_pipeline ext_ex
       ((node_ex 50 [0])\<lparr>stored_frames := [stored_ex], processed_frame_counter := 2\<rparr>)"
    unfolding run_full_pre_processing_pipeline_def
    by (simp add: c q l Let_def) (simp add: node_ex_def)
  show ?thesis
    unfolding step1
    by (simp add: run_full_pre_processing_pipeline_def node_ex_def ext_ex_def blind_zone_ex0
        Let_def slant_ex[unfolded swath_ex_def] pose_ex[unfolded swath_ex_def] swath_ex_def
        replicate_append_same d)
qed

lemma const_upd: "(\<lambda>_. c)(x := c) = (\<lambda>_. c)"
  by (simp add: fun_eq_iff)

lemma slant_empty: "slant_range_correction ssd_ex fresh_swath_ex = Inr fresh_swath_ex"
  by (simp add: slant_range_correction_def fresh_swath_ex_def)

lemma pose_empty: "pose_correction ssd_ex fresh_swath_ex = Inr ca_empty"
  by (simp add: pose_correction_def fresh_swath_ex_def odometry_ex_def pitch_yaw_ex ca_empty_def)

lemma sonar_node_empty: "sonar_sub msg_empty (node_empty k []) = node_empty k [0]"
  by (simp add: sonar_sub_def node_empty_def msg_empty_def fresh_swath_ex_def const_upd)

lemma init_empty:
  "sonar_sub msg_empty (state_sub odometry_ex (init ssd_ex fresh_swath_ex odometry_ex))
     = node_empty 0 [0]"
  by (simp add: sonar_sub_def state_sub_def init_def node_empty_def msg_empty_def
      fresh_swath_ex_def const_upd)

lemma tick_node_empty:
  assumes "k < 100"
  shows "run_full_pre_processing_pipeline ext_ex (node_empty k [0]) = Inr (node_empty (Suc k) [])"
proof (cases "k = 0")
  case True
  then show ?thesis
    by (simp add: run_full_pre_processing_pipeline_def node_empty_def ext_ex_def blind_zone_ex0
        Let_def slant_empty[unfolded fresh_swath_ex_def] pose_empty[unfolded fresh_swath_ex_def]
        fresh_swath_ex_def const_upd)
next
  case False
  then have "k mod 100 \<noteq> 0" using assms by simp
  then show ?thesis
    by (simp add: run_full_pre_processing_pipeline_def node_empty_def ext_ex_def blind_zone_ex0
        Let_def slant_empty[unfolded fresh_swath_ex_def] pose_empty[unfolded fresh_swath_ex_def]
        fresh_swath_ex_def replicate_append_same const_upd)
qed

lemma reachable_node_empty: "k \<le> 100 \<Longrightarrow> reachable ext_ex (node_empty k [0])"
proof (induction k)
  case 0
  show ?case
    using reach_sonar[OF reach_state[OF reach_init],
        of ext_ex msg_empty odometry_ex ssd_ex fresh_swath_ex odometry_ex]
    by (simp add: init_empty)
next
  case (Suc k)
  then have "reachable ext_ex (node_empty k [0])" and "k < 100" by simp_all
  then have "reachable ext_ex (node_empty (Suc k) [])"
    using reach_tick tick_node_empty by blast
  then show ?case
    using reach_sonar[of ext_ex "node_empty (Suc k) []" msg_empty] by (simp add: sonar_node_empty)
qed

lemma reachable_node_empty_frames: "reachable ext_ex node_empty_frames"
proof -
  have "reachable ext_ex (node_empty 100 [])"
    using reach_tick[OF reachable_node_empty[of 99] tick_node_empty[of 99]] by simp
  then have "reachable ext_ex (sonar_sub msg_ex (node_empty 100 []))"
    by (rule reach_sonar)
  moreover have "sonar_sub msg_ex (node_empty 100 []) = node_empty_frames"
    by (simp add: sonar_sub_def node_empty_def node_empty_frames_def node_ex_def msg_ex_def
        swath_ex_def int_from_bytes_big_def fresh_swath_ex_def)
  ultimately show ?thesis by simp
qed

lemma reachable_node_ex_idle: "reachable ext_ex (node_ex 100 [])"
  using reach_tick[OF reachable_node_ex[of 99] tick_node_ex[of 99]] by simp

lemma flatten_ex:
  assumes "flatten_frames (replicate 100 ca_ex) = (us, vs, ivs)"
  shows "take 2 (zip us (zip vs ivs)) = [(0, 0, Val 2), (0, 0, Val 1)]"
proof -
  have "us = x_right ca_ex @ x_left ca_ex @ fst (flatten_frames (replicate 99 ca_ex))"
    and "vs = y_right ca_ex @ y_left ca_ex @ fst (snd (flatten_frames (replicate 99 ca_ex)))"
    and "ivs = intensity_left ca_ex @ intensity_right ca_ex
                 @ snd (snd (flatten_frames (replicate 99 ca_ex)))"
    using assms unfolding replicate_100 flatten_frames_Cons by simp_all
  then show ?thesis
    by (simp add: ca_ex_def)
qed

lemma stored_ex_head: "take 2 (raw_table stored_ex) = [(0, 0, Val 2), (0, 0, Val 1)]"
proof -
  obtain us vs ivs where fl: "flatten_frames (replicate 100 ca_ex) = (us, vs, ivs)"
    by (cases "flatten_frames (replicate 100 ca_ex)") auto
  show ?thesis
    using flatten_ex[OF fl] by (simp add: stored_ex_def fl)
qed

lemma tick_ex_build:
  assumes len: "length b = 100"
    and fl: "flatten_frames b = (us, vs, ivs)" and ne: "us \<noteq> []" "vs \<noteq> []"
  shows "run_full_pre_processing_pipeline ext_ex
           ((node_ex 0 [0])\<lparr>buffer_processed_coordinate_array := b\<rparr>) =
     Inr ((node_ex 0 [])\<lparr>buffer_processed_coordinate_array := drop 50 b @ [ca_ex],
            stored_frames := [\<lparr>frame_number = 1, raw_table = zip us (zip vs ivs),
                                knn_table = [], knn_filtered_table = []\<rparr>],
            processed_frame_counter := 2\<rparr>)"
proof -
  let ?st = "(node_ex 0 [0])\<lparr>buffer_processed_coordinate_array := b\<rparr>"
  have b: "buffer_processed_coordinate_array ?st = b"
    and c: "processed_frame_counter ?st = 1"
    and d: "stored_frames ?st = []"
    and q: "buffer_unprocessed_swaths ?st = [0]"
    by (simp_all add: node_ex_def)
  obtain fp where cf: "construct_frame ext_ex ?st =
      Inr (fp, ?st\<lparr>stored_frames := stored_frames ?st @
                     [\<lparr>frame_number = processed_frame_counter ?st,
                       raw_table = zip us (zip vs ivs),
                       knn_table = [], knn_filtered_table = []\<rparr>],
                   processed_frame_counter := processed_frame_counter ?st + 1\<rparr>)"
    using construct_frame_ex[of ?st us vs ivs] fl ne b by auto
  have cf': "construct_frame ext_ex ?st =
      Inr (fp, ?st\<lparr>stored_frames := [\<lparr>frame_number = 1, raw_table = zip us (zip vs ivs),
                                knn_table = [], knn_filtered_table = []\<rparr>],
                   processed_frame_counter := 2\<rparr>)"
    using cf by (simp add: c d)
  have step1: "run_full_pre_processing_pipeline ext_ex ?st =
     run_full_pre_processing_pipeline ext_ex
       ((node_ex 0 [0])\<lparr>buffer_processed_coordinate_array := drop 50 b,
          stored_frames := [\<lparr>frame_number = 1, raw_table = zip us (zip vs ivs),
                                knn_table = [], knn_filtered_table = []\<rparr>],
          processed_frame_counter := 2\<rparr>)"
    unfolding run_full_pre_processing_pipeline_def
    by (simp add: cf' q b len Let_def) (simp add: node_ex_def)
  show ?thesis
    unfolding step1
    by (simp add: run_full_pre_processing_pipeline_def node_ex_def ext_ex_def blind_zone_ex0
        Let_def slant_ex[unfolded swath_ex_def] pose_ex[unfolded swath_ex_def] swath_ex_def len)
qed


lemma flatten_two:
  assumes "flatten_frames (replicate 100 ca_two) = (us, vs, ivs)"
  shows "take 4 (zip us (zip vs ivs)) = [(0, 0, Val 3), (0, 1, Val 4), (0, 0, Val 1), (0, - 1, Val 2)]"
    and "us \<noteq> []" and "vs \<noteq> []"
proof -
  have "us = x_right ca_two @ x_left ca_two @ fst (flatten_frames (replicate 99 ca_two))"
    and "vs = y_right ca_two @ y_left ca_two @ fst (snd (flatten_frames (replicate 99 ca_two)))"
    and "ivs = intensity_left ca_two @ intensity_right ca_two
                 @ snd (snd (flatten_frames (replicate 99 ca_two)))"
    using assms unfolding replicate_100 flatten_frames_Cons by simp_all
  then show "take 4 (zip us (zip vs ivs)) = [(0, 0, Val 3), (0, 1, Val 4), (0, 0, Val 1), (0, - 1, Val 2)]"
    and "us \<noteq> []" and "vs \<noteq> []"
    by (simp_all add: ca_two_def)
qed

section \<open>The scatter of a mosaic build\<close>

text \<open>
  Claim C1. The flattened intensity sequence is meant to match the flattened points
  position by position, a right-channel point with the right-channel intensity. The
  build extends \<^verbatim>\<open>intensity_values\<close> with row 5 (left) before row 4 (right), while the
  points are right before left. On a buffer of 100 arrays \<open>ca_two\<close> the first four
  rows of the stored raw table are the two right-channel points \<open>(0, 0)\<close> and \<open>(0, 1)\<close>
  with the left intensities 3 and 4, then the two left-channel points with the right
  intensities 1 and 2. In the run that reaches \<open>node_ex 100 [0]\<close> from the constructor,
  where every swath has the right intensity 1 and the left intensity 2, the first
  stored row (a right-channel point) carries 2 and the second (a left-channel point)
  carries 1.
\<close>

theorem right_points_carry_left_intensity:
  "(\<exists>st'. run_full_pre_processing_pipeline ext_ex node_two = Inr st'
     \<and> take 4 (raw_table (last (stored_frames st')))
         = [(0, 0, Val 3), (0, 1, Val 4), (0, 0, Val 1), (0, - 1, Val 2)])
   \<and> reachable ext_ex (node_ex 100 [0])
   \<and> run_full_pre_processing_pipeline ext_ex (node_ex 100 [0])
       = Inr ((node_ex 51 [])\<lparr>stored_frames := [stored_ex], processed_frame_counter := 2\<rparr>)
   \<and> intensity_right ca_ex = [Val 1]
   \<and> intensity_left ca_ex = [Val 2]
   \<and> take 2 (raw_table stored_ex) = [(0, 0, Val 2), (0, 0, Val 1)]"
proof -
  obtain us vs ivs where fl: "flatten_frames (replicate 100 ca_two) = (us, vs, ivs)"
    by (cases "flatten_frames (replicate 100 ca_two)") auto
  have "run_full_pre_processing_pipeline ext_ex node_two =
     Inr ((node_ex 0 [])\<lparr>buffer_processed_coordinate_array := drop 50 (replicate 100 ca_two) @ [ca_ex],
            stored_frames := [\<lparr>frame_number = 1, raw_table = zip us (zip vs ivs),
                                knn_table = [], knn_filtered_table = []\<rparr>],
            processed_frame_counter := 2\<rparr>)"
    unfolding node_two_def
    by (rule tick_ex_build[OF _ fl flatten_two(2,3)[OF fl]]) simp
  then have first: "\<exists>st'. run_full_pre_processing_pipeline ext_ex node_two = Inr st'
     \<and> take 4 (raw_table (last (stored_frames st')))
         = [(0, 0, Val 3), (0, 1, Val 4), (0, 0, Val 1), (0, - 1, Val 2)]"
    using flatten_two(1)[OF fl] by simp
  have r: "reachable ext_ex (node_ex 100 [0])"
    by (rule reachable_node_ex) simp
  have i: "intensity_right ca_ex = [Val 1]" "intensity_left ca_ex = [Val 2]"
    by (simp_all add: ca_ex_def)
  show ?thesis
    using first r tick_node_ex_100 i stored_ex_head by (intro conjI)
qed

section \<open>The queue of unprocessed swaths\<close>

text \<open>
  Claim C2. A queued swath is meant to keep its fields until it is processed. Every
  sonar message writes into the one swath object of the node and queues a reference to
  it: after a second sonar message the first entry of the queue (address 0) holds the
  samples of the second message.
\<close>

theorem queued_swath_overwritten:
  "buffer_unprocessed_swaths
     (sonar_sub msg_ex (state_sub odometry_ex (init ssd_ex fresh_swath_ex odometry_ex))) = [0]
   \<and> heap (sonar_sub msg_ex (state_sub odometry_ex (init ssd_ex fresh_swath_ex odometry_ex))) 0
       = \<lparr>swath_right = [Val 1], swath_left = [Val 2], state = odometry_ex, altitude = 0\<rparr>
   \<and> buffer_unprocessed_swaths
       (sonar_sub msg_ex'
         (sonar_sub msg_ex (state_sub odometry_ex (init ssd_ex fresh_swath_ex odometry_ex))))
       = [0, 0]
   \<and> heap (sonar_sub msg_ex'
         (sonar_sub msg_ex (state_sub odometry_ex (init ssd_ex fresh_swath_ex odometry_ex)))) 0
       = \<lparr>swath_right = [Val 3], swath_left = [Val 4], state = odometry_ex, altitude = 0\<rparr>"
  by (simp add: sonar_sub_def state_sub_def init_def msg_ex_def msg_ex'_def
      int_from_bytes_big_def fresh_swath_ex_def)

section \<open>When a mosaic is built\<close>

text \<open>
  With an empty queue the tick returns before the length of the buffer is looked at:
  in the reachable state \<open>node_ex 100 []\<close> the buffer holds 100 arrays and the tick
  changes nothing, although a build on that state would store a frame.
\<close>

theorem empty_queue_no_build:
  "reachable ext_ex (node_ex 100 [])
   \<and> length (buffer_processed_coordinate_array (node_ex 100 [])) = 100
   \<and> run_full_pre_processing_pipeline ext_ex (node_ex 100 []) = Inr (node_ex 100 [])
   \<and> stored_frames (node_ex 100 []) = []
   \<and> map_sum id snd (construct_frame ext_ex (node_ex 100 []))
       = Inr ((node_ex 100 [])\<lparr>stored_frames := [stored_ex], processed_frame_counter := 2\<rparr>)"
proof -
  obtain fp where "construct_frame ext_ex (node_ex 100 []) =
      Inr (fp, (node_ex 100 [])\<lparr>stored_frames := [stored_ex], processed_frame_counter := 2\<rparr>)"
    using construct_node_ex by blast
  then have a: "map_sum id snd (construct_frame ext_ex (node_ex 100 []))
       = Inr ((node_ex 100 [])\<lparr>stored_frames := [stored_ex], processed_frame_counter := 2\<rparr>)"
    by simp
  have q: "buffer_unprocessed_swaths (node_ex 100 []) = []"
    and l: "length (buffer_processed_coordinate_array (node_ex 100 [])) = 100"
    and f: "stored_frames (node_ex 100 []) = []"
    by (simp_all add: node_ex_def)
  show ?thesis
    using reachable_node_ex_idle a l f run_full_empty[OF q, of ext_ex] by (intro conjI)
qed

text \<open>
  Claim C3. On a tick that returns, a mosaic is built exactly when the queue of
  unprocessed swaths is not empty and the length of the buffer is a positive multiple
  of 100. The build runs first, on the state as the tick found it (no swath popped, no
  array appended): the stored raw table is the flattened buffer of that state, one
  frame is stored and the frame counter advances by one. Otherwise nothing is stored.
\<close>

theorem build_when_due:
  assumes "run_full_pre_processing_pipeline ext st = Inr st'"
  shows "if buffer_unprocessed_swaths st \<noteq> []
            \<and> length (buffer_processed_coordinate_array st) mod 100 = 0
            \<and> length (buffer_processed_coordinate_array st) \<noteq> 0
         then \<exists>fp st0. construct_frame ext st = Inr (fp, st0)
                \<and> stored_frames st' = stored_frames st0
                \<and> length (stored_frames st') = Suc (length (stored_frames st))
                \<and> raw_table (last (stored_frames st'))
                    = zip (frame_u fp) (zip (frame_v fp) (frame_intensity_values fp))
                \<and> flatten_frames (buffer_processed_coordinate_array st)
                    = (frame_u fp, frame_v fp, frame_intensity_values fp)
                \<and> processed_frame_counter st' = processed_frame_counter st + 1
         else stored_frames st' = stored_frames st
                \<and> processed_frame_counter st' = processed_frame_counter st"
proof (cases "buffer_unprocessed_swaths st = []")
  case True
  then have "st' = st" using assms by (simp add: run_full_empty)
  then show ?thesis using True by simp
next
  case False
  show ?thesis
  proof (cases "length (buffer_processed_coordinate_array st) mod 100 = 0
            \<and> length (buffer_processed_coordinate_array st) \<noteq> 0")
    case due: True
    then have c: "buffer_unprocessed_swaths st \<noteq> []
            \<and> length (buffer_processed_coordinate_array st) mod 100 = 0
            \<and> length (buffer_processed_coordinate_array st) \<noteq> 0"
      using False by blast
    obtain fp st0 where cf: "construct_frame ext st = Inr (fp, st0)"
      and s: "stored_frames st' = stored_frames st0"
      and n: "processed_frame_counter st' = processed_frame_counter st + 1"
      using run_full_buffer_due[OF assms False due] by blast
    have "length (stored_frames st') = Suc (length (stored_frames st))"
      and "raw_table (last (stored_frames st'))
                    = zip (frame_u fp) (zip (frame_v fp) (frame_intensity_values fp))"
      using construct_frame_Inr(2)[OF cf] by (simp_all add: s)
    then have "\<exists>fp st0. construct_frame ext st = Inr (fp, st0)
                \<and> stored_frames st' = stored_frames st0
                \<and> length (stored_frames st') = Suc (length (stored_frames st))
                \<and> raw_table (last (stored_frames st'))
                    = zip (frame_u fp) (zip (frame_v fp) (frame_intensity_values fp))
                \<and> flatten_frames (buffer_processed_coordinate_array st)
                    = (frame_u fp, frame_v fp, frame_intensity_values fp)
                \<and> processed_frame_counter st' = processed_frame_counter st + 1"
      using cf s n construct_frame_Inr(1)[OF cf] by blast
    then show ?thesis unfolding if_P[OF c] .
  next
    case nd: False
    then have c: "\<not> (buffer_unprocessed_swaths st \<noteq> []
            \<and> length (buffer_processed_coordinate_array st) mod 100 = 0
            \<and> length (buffer_processed_coordinate_array st) \<noteq> 0)"
      by blast
    have "stored_frames st' = stored_frames st
                \<and> processed_frame_counter st' = processed_frame_counter st"
      using run_full_buffer_not_due[OF assms False nd] by blast
    then show ?thesis unfolding if_not_P[OF c] .
  qed
qed


theorem build_when_due_witness:
  "run_full_pre_processing_pipeline ext_ex (node_ex 100 [0])
     = Inr ((node_ex 51 [])\<lparr>stored_frames := [stored_ex], processed_frame_counter := 2\<rparr>)
   \<and> (\<exists>fp st0. construct_frame ext_ex (node_ex 100 [0]) = Inr (fp, st0)
          \<and> [stored_ex] = stored_frames st0
          \<and> raw_table stored_ex = zip (frame_u fp) (zip (frame_v fp) (frame_intensity_values fp))
          \<and> flatten_frames (replicate 100 ca_ex)
               = (frame_u fp, frame_v fp, frame_intensity_values fp))
   \<and> processed_frame_counter (node_ex 100 [0]) = 1"
proof -
  have q: "buffer_unprocessed_swaths (node_ex 100 [0]) \<noteq> []
            \<and> length (buffer_processed_coordinate_array (node_ex 100 [0])) mod 100 = 0
            \<and> length (buffer_processed_coordinate_array (node_ex 100 [0])) \<noteq> 0"
    by (simp add: node_ex_def)
  have b: "buffer_processed_coordinate_array (node_ex 100 [0]) = replicate 100 ca_ex"
    and c: "processed_frame_counter (node_ex 100 [0]) = 1"
    by (simp_all add: node_ex_def)
  obtain fp st0 where "construct_frame ext_ex (node_ex 100 [0]) = Inr (fp, st0)"
    and "[stored_ex] = stored_frames st0"
    and "raw_table stored_ex = zip (frame_u fp) (zip (frame_v fp) (frame_intensity_values fp))"
    and "flatten_frames (replicate 100 ca_ex)
               = (frame_u fp, frame_v fp, frame_intensity_values fp)"
    using build_when_due[OF tick_node_ex_100] unfolding if_P[OF q]
    by (auto simp: b)
  then show ?thesis
    using tick_node_ex_100 c by blast
qed

section \<open>The length of the buffer of processed arrays\<close>

text \<open>
  Claim C5. In every reachable state: the three subscriptions leave the buffer as it
  is; a tick with an empty queue leaves it as it is; a tick that processes a swath
  appends exactly one array; and when a build is due the buffer holds exactly 100
  arrays, the 50 oldest are dropped after the build and the 50 most recent are kept,
  before the array of the processed swath is appended.
\<close>

theorem buffer_length_discipline:
  assumes "reachable ext st"
  shows "buffer_processed_coordinate_array (sonar_sub smsg st) = buffer_processed_coordinate_array st
       \<and> buffer_processed_coordinate_array (dvl_sub dmsg st) = buffer_processed_coordinate_array st
       \<and> buffer_processed_coordinate_array (state_sub omsg st) = buffer_processed_coordinate_array st
       \<and> (\<forall>st'. run_full_pre_processing_pipeline ext st = Inr st' \<longrightarrow>
            (if buffer_unprocessed_swaths st = []
             then buffer_processed_coordinate_array st' = buffer_processed_coordinate_array st
             else if length (buffer_processed_coordinate_array st) mod 100 = 0
                       \<and> length (buffer_processed_coordinate_array st) \<noteq> 0
             then length (buffer_processed_coordinate_array st) = 100
                  \<and> (\<exists>ca. buffer_processed_coordinate_array st'
                              = drop 50 (buffer_processed_coordinate_array st) @ [ca])
             else (\<exists>ca. buffer_processed_coordinate_array st'
                           = buffer_processed_coordinate_array st @ [ca])))"
proof -
  have tick: "if buffer_unprocessed_swaths st = []
             then buffer_processed_coordinate_array st' = buffer_processed_coordinate_array st
             else if length (buffer_processed_coordinate_array st) mod 100 = 0
                       \<and> length (buffer_processed_coordinate_array st) \<noteq> 0
             then length (buffer_processed_coordinate_array st) = 100
                  \<and> (\<exists>ca. buffer_processed_coordinate_array st'
                              = drop 50 (buffer_processed_coordinate_array st) @ [ca])
             else (\<exists>ca. buffer_processed_coordinate_array st'
                           = buffer_processed_coordinate_array st @ [ca])"
    if ok: "run_full_pre_processing_pipeline ext st = Inr st'" for st'
  proof (cases "buffer_unprocessed_swaths st = []")
    case True
    then have "st' = st" using ok by (simp add: run_full_empty)
    then show ?thesis unfolding if_P[OF True] by simp
  next
    case False
    show ?thesis
    proof (cases "length (buffer_processed_coordinate_array st) mod 100 = 0
                       \<and> length (buffer_processed_coordinate_array st) \<noteq> 0")
      case due: True
      have "length (buffer_processed_coordinate_array st) \<le> 100"
        using reachable_buffer_le[OF assms] .
      then have "length (buffer_processed_coordinate_array st) = 100"
      proof (cases "length (buffer_processed_coordinate_array st) < 100")
        case True
        then have "length (buffer_processed_coordinate_array st) mod 100
                     = length (buffer_processed_coordinate_array st)"
          by (rule mod_less)
        then show ?thesis using due by simp
      next
        case False
        then show ?thesis
          using \<open>length (buffer_processed_coordinate_array st) \<le> 100\<close> by simp
      qed
      moreover have "\<exists>ca. buffer_processed_coordinate_array st'
                              = drop 50 (buffer_processed_coordinate_array st) @ [ca]"
        using run_full_buffer_due[OF ok False due] by blast
      ultimately show ?thesis
        unfolding if_not_P[OF False] if_P[OF due] by blast
    next
      case nd: False
      have "\<exists>ca. buffer_processed_coordinate_array st'
                           = buffer_processed_coordinate_array st @ [ca]"
        using run_full_buffer_not_due[OF ok False nd] by blast
      then show ?thesis
        unfolding if_not_P[OF False] if_not_P[OF nd] .
    qed
  qed
  show ?thesis
    using tick by (simp only: handlers_buffer) blast
qed

theorem buffer_length_discipline_witness:
  "reachable ext_ex (node_ex 100 [0])
   \<and> run_full_pre_processing_pipeline ext_ex (node_ex 100 [0])
       = Inr ((node_ex 51 [])\<lparr>stored_frames := [stored_ex], processed_frame_counter := 2\<rparr>)
   \<and> length (buffer_processed_coordinate_array (node_ex 100 [0])) = 100
   \<and> (\<exists>ca. replicate 51 ca_ex = drop 50 (replicate 100 ca_ex) @ [ca])"
proof -
  have r: "reachable ext_ex (node_ex 100 [0])"
    by (rule reachable_node_ex) simp
  have q: "buffer_unprocessed_swaths (node_ex 100 [0]) \<noteq> []"
    and due: "length (buffer_processed_coordinate_array (node_ex 100 [0])) mod 100 = 0
            \<and> length (buffer_processed_coordinate_array (node_ex 100 [0])) \<noteq> 0"
    and b: "buffer_processed_coordinate_array (node_ex 100 [0]) = replicate 100 ca_ex"
    and b': "buffer_processed_coordinate_array
       ((node_ex 51 [])\<lparr>stored_frames := [stored_ex], processed_frame_counter := 2\<rparr>)
       = replicate 51 ca_ex"
    by (simp_all add: node_ex_def)
  have "length (buffer_processed_coordinate_array (node_ex 100 [0])) = 100
                  \<and> (\<exists>ca. buffer_processed_coordinate_array
       ((node_ex 51 [])\<lparr>stored_frames := [stored_ex], processed_frame_counter := 2\<rparr>)
                              = drop 50 (buffer_processed_coordinate_array (node_ex 100 [0])) @ [ca])"
    using buffer_length_discipline[OF r] tick_node_ex_100
    unfolding if_not_P[OF q] if_P[OF due] by blast
  then show ?thesis
    using r tick_node_ex_100 unfolding b b' by blast
qed

section \<open>Faults of a mosaic build\<close>

text \<open>
  After 100 sonar messages without samples, each followed by a tick, and one more
  sonar message, the buffer holds 100 arrays without samples: the scatter is empty,
  \<^verbatim>\<open>min\<close> raises \<^verbatim>\<open>ValueError\<close> and the tick ends with it. The same queued swath is
  processed without a fault when no build is due.
\<close>

theorem empty_scatter_build_raises:
  "reachable ext_ex node_empty_frames
   \<and> length (buffer_processed_coordinate_array node_empty_frames) = 100
   \<and> buffer_unprocessed_swaths node_empty_frames = [0]
   \<and> run_full_pre_processing_pipeline ext_ex node_empty_frames = Inl ValueError
   \<and> run_full_pre_processing_pipeline ext_ex (node_ex 0 [0]) = Inr (node_ex 1 [])"
proof -
  have e: "fst (flatten_frames (replicate n ca_empty)) = []" for n
    by (induction n) (simp_all add: ca_empty_def split: prod.splits)
  have "construct_frame ext_ex node_empty_frames = Inl ValueError"
    by (rule construct_frame_empty) (simp add: node_empty_frames_def e)
  then have "run_full_pre_processing_pipeline ext_ex node_empty_frames = Inl ValueError"
    unfolding run_full_pre_processing_pipeline_def
    by (simp add: node_empty_frames_def node_ex_def)
  moreover have "length (buffer_processed_coordinate_array node_empty_frames) = 100"
    and "buffer_unprocessed_swaths node_empty_frames = [0]"
    by (simp_all add: node_empty_frames_def node_ex_def)
  moreover have "run_full_pre_processing_pipeline ext_ex (node_ex 0 [0]) = Inr (node_ex 1 [])"
    using tick_node_ex[of 0] by simp
  ultimately show ?thesis
    using reachable_node_empty_frames by (intro conjI)
qed

text \<open>
  Claim C7. Nothing in the tick catches an exception of the build. When a build is due
  and the queue is not empty, an empty scatter makes the tick raise \<^verbatim>\<open>ValueError\<close>,
  and every exception of the build is the exception of the tick: no swath is processed
  on that tick.
\<close>

theorem build_fault_propagates:
  assumes "buffer_unprocessed_swaths st \<noteq> []"
    and "length (buffer_processed_coordinate_array st) mod 100 = 0"
    and "length (buffer_processed_coordinate_array st) \<noteq> 0"
  shows "(fst (flatten_frames (buffer_processed_coordinate_array st)) = []
            \<longrightarrow> run_full_pre_processing_pipeline ext st = Inl ValueError)
       \<and> (\<forall>e. construct_frame ext st = Inl e
            \<longrightarrow> run_full_pre_processing_pipeline ext st = Inl e)"
proof -
  have p: "run_full_pre_processing_pipeline ext st = Inl e"
    if "construct_frame ext st = Inl e" for e
    unfolding run_full_pre_processing_pipeline_def
    using assms that by (simp add: Let_def)
  show ?thesis
    using p construct_frame_empty[of st ext] by blast
qed

theorem build_fault_propagates_witness:
  "reachable ext_ex node_empty_frames
   \<and> buffer_unprocessed_swaths node_empty_frames \<noteq> []
   \<and> length (buffer_processed_coordinate_array node_empty_frames) = 100
   \<and> fst (flatten_frames (buffer_processed_coordinate_array node_empty_frames)) = []
   \<and> run_full_pre_processing_pipeline ext_ex node_empty_frames = Inl ValueError"
proof -
  have e: "fst (flatten_frames (replicate n ca_empty)) = []" for n
    by (induction n) (simp_all add: ca_empty_def split: prod.splits)
  have q: "buffer_unprocessed_swaths node_empty_frames \<noteq> []"
    and l: "length (buffer_processed_coordinate_array node_empty_frames) = 100"
    and f: "fst (flatten_frames (buffer_processed_coordinate_array node_empty_frames)) = []"
    by (simp_all add: node_empty_frames_def node_ex_def e)
  have "run_full_pre_processing_pipeline ext_ex node_empty_frames = Inl ValueError"
    using build_fault_propagates[OF q, of ext_ex] l f by simp
  then show ?thesis using reachable_node_empty_frames q l f by (intro conjI)
qed

section \<open>Sample counts through the stages\<close>

text \<open>
  Claim C8. Let the normalization return as many samples as it is given (it is outside
  the file). For a processed swath whose two channels have equal lengths on entry, the
  channels have equal lengths after normalization, after blind-zone removal and after
  slant-range correction, and the six rows of the array appended to the buffer all have
  the sample count of the corrected channels.
\<close>

theorem channel_lengths_stay_equal:
  assumes norm: "\<forall>xs ys. swath_normalization ext xs = Inr ys \<longrightarrow> length ys = length xs"
    and queued: "buffer_unprocessed_swaths st \<noteq> []"
    and equal: "length (swath_right (heap st (hd (buffer_unprocessed_swaths st))))
                  = length (swath_left (heap st (hd (buffer_unprocessed_swaths st))))"
    and ok: "run_full_pre_processing_pipeline ext st = Inr st'"
  shows "\<exists>r1 l1 r2 l2 sw' ca.
           swath_normalization ext (swath_right (heap st (hd (buffer_unprocessed_swaths st)))) = Inr r1
         \<and> swath_normalization ext (swath_left (heap st (hd (buffer_unprocessed_swaths st)))) = Inr l1
         \<and> length r1 = length l1
         \<and> blind_zone_removal (side_scan_data st) (normalized_container ext)
              (current_altitude st) r1 = Inr r2
         \<and> blind_zone_removal (side_scan_data st) (normalized_container ext)
              (current_altitude st) l1 = Inr l2
         \<and> length r2 = length l2
         \<and> slant_range_correction (side_scan_data st)
              ((heap st (hd (buffer_unprocessed_swaths st)))\<lparr>swath_right := r2, swath_left := l2\<rparr>)
              = Inr sw'
         \<and> length (swath_right sw') = length (swath_left sw')
         \<and> pose_correction (side_scan_data st) sw' = Inr ca
         \<and> last (buffer_processed_coordinate_array st') = ca
         \<and> length (x_right ca) = length (swath_right sw')
         \<and> length (x_left ca) = length (swath_right sw')
         \<and> length (y_right ca) = length (swath_right sw')
         \<and> length (y_left ca) = length (swath_right sw')
         \<and> length (intensity_right ca) = length (swath_right sw')
         \<and> length (intensity_left ca) = length (swath_right sw')"
proof -
  let ?sw = "heap st (hd (buffer_unprocessed_swaths st))"
  from run_full_pre[OF ok queued] obtain st1 r1 l1 r2 l2 sw' ca where
    fr: "heap st1 = heap st" "buffer_unprocessed_swaths st1 = buffer_unprocessed_swaths st"
      "current_altitude st1 = current_altitude st" "side_scan_data st1 = side_scan_data st"
    and n1: "swath_normalization ext (swath_right (heap st1 (hd (buffer_unprocessed_swaths st1)))) = Inr r1"
    and n2: "swath_normalization ext (swath_left (heap st1 (hd (buffer_unprocessed_swaths st1)))) = Inr l1"
    and b1: "blind_zone_removal (side_scan_data st1) (normalized_container ext) (current_altitude st1) r1 = Inr r2"
    and b2: "blind_zone_removal (side_scan_data st1) (normalized_container ext) (current_altitude st1) l1 = Inr l2"
    and sl: "slant_range_correction (side_scan_data st1)
         ((heap st1 (hd (buffer_unprocessed_swaths st1)))\<lparr>swath_right := r2, swath_left := l2\<rparr>) = Inr sw'"
    and pc: "pose_correction (side_scan_data st1) sw' = Inr ca"
    and post: "st' = st1\<lparr>heap := (heap st1)(hd (buffer_unprocessed_swaths st1) := sw'),
                 buffer_processed_coordinate_array := buffer_processed_coordinate_array st1 @ [ca],
                 buffer_unprocessed_swaths := tl (buffer_unprocessed_swaths st1)\<rparr>"
    by metis
  have len1: "length r1 = length l1"
    using norm n1 n2 equal by (simp add: fr)
  have len2: "length r2 = length l2"
    using blind_zone_removal_length[OF b1 b2 len1] .
  have len3: "length (swath_right sw') = length (swath_left sw')"
    using slant_range_correction_length(1,2)[OF sl] by simp
  have lastca: "last (buffer_processed_coordinate_array st') = ca"
    by (simp add: post)
  show ?thesis
    using n1 n2 b1 b2 sl pc len1 len2 len3 lastca pose_correction_rows(1-6)[OF pc]
    unfolding fr by blast
qed


lemma blind_zone_list_ex:
  "blind_zone_removal ssd_ex PyList 1 [x] = Inr [NaN, NaN]"
  by (simp add: blind_zone_removal_def index_FBR_ex slice_length_def numeral_2_eq_2)

lemma slant_nan:
  "slant_range_correction ssd_ex
      \<lparr>swath_right = [NaN, NaN], swath_left = [NaN, NaN], state = odometry_ex, altitude = 0\<rparr>
    = Inr swath_nan"
  by (simp add: slant_range_correction_def ssd_ex_def corrected_intensity_value_def upt_0_2
      py_index_def floor_bin_def ceiling_bin_def exact_bin_def weight_1_def weight_2_def
      swath_nan_def)

lemma pose_nan: "pose_correction ssd_ex swath_nan = Inr ca_nan"
  by (simp add: pose_correction_def swath_nan_def ssd_ex_def odometry_ex_def pitch_yaw_ex
      ca_nan_def upt_0_2)

lemma tick_nan:
  "run_full_pre_processing_pipeline ext_list (dvl_sub dvl_ex (node_ex 0 [0])) = Inr node_nan"
  by (simp add: run_full_pre_processing_pipeline_def dvl_sub_def dvl_ex_def node_ex_def
      ext_list_def ext_ex_def Let_def swath_ex_def blind_zone_list_ex slant_nan pose_nan
      node_nan_def)

theorem channel_lengths_stay_equal_witness:
  "run_full_pre_processing_pipeline ext_list (dvl_sub dvl_ex (node_ex 0 [0])) = Inr node_nan
   \<and> length (swath_right swath_ex) = length (swath_left swath_ex)
   \<and> blind_zone_removal ssd_ex PyList 1 [Val 1] = Inr [NaN, NaN]
   \<and> blind_zone_removal ssd_ex PyList 1 [Val 2] = Inr [NaN, NaN]
   \<and> last (buffer_processed_coordinate_array node_nan) = ca_nan
   \<and> (\<exists>sw'. length (swath_right sw') = length (swath_left sw')
         \<and> pose_correction ssd_ex sw' = Inr ca_nan
         \<and> length (x_right ca_nan) = length (swath_right sw')
         \<and> length (intensity_left ca_nan) = length (swath_right sw'))"
proof -
  let ?st = "dvl_sub dvl_ex (node_ex 0 [0])"
  have norm: "\<forall>xs ys. swath_normalization ext_list xs = Inr ys \<longrightarrow> length ys = length xs"
    by (simp add: ext_list_def ext_ex_def)
  have q: "buffer_unprocessed_swaths ?st \<noteq> []"
    and h: "heap ?st (hd (buffer_unprocessed_swaths ?st)) = swath_ex"
    and d: "side_scan_data ?st = ssd_ex"
    by (simp_all add: dvl_sub_def dvl_ex_def node_ex_def)
  have eq: "length (swath_right (heap ?st (hd (buffer_unprocessed_swaths ?st))))
                  = length (swath_left (heap ?st (hd (buffer_unprocessed_swaths ?st))))"
    unfolding h by (simp add: swath_ex_def)
  have l: "last (buffer_processed_coordinate_array node_nan) = ca_nan"
    by (simp add: node_nan_def)
  obtain sw' where "length (swath_right sw') = length (swath_left sw')"
      and "pose_correction ssd_ex sw' = Inr ca_nan"
      and "length (x_right ca_nan) = length (swath_right sw')"
      and "length (intensity_left ca_nan) = length (swath_right sw')"
    using channel_lengths_stay_equal[OF norm q eq tick_nan] unfolding l d by auto
  then show ?thesis
    using tick_nan l blind_zone_list_ex by (auto simp: swath_ex_def)
qed

section \<open>Which altitude a stage uses\<close>

lemma slant_loop_nth:
  assumes "slant_loop r a n right left ss = Inr (rs, ls)" and "i < length ss"
  shows "corrected_intensity_value r a n right (ss ! i) = Inr (rs ! i)
       \<and> corrected_intensity_value r a n left (ss ! i) = Inr (ls ! i)"
  using assms
proof (induction ss arbitrary: rs ls i)
  case Nil
  then show ?case by simp
next
  case (Cons s ss)
  then obtain rs' ls' cr cl where
    c: "corrected_intensity_value r a n right s = Inr cr"
       "corrected_intensity_value r a n left s = Inr cl"
    and l: "slant_loop r a n right left ss = Inr (rs', ls')"
    and e: "rs = cr # rs'" "ls = cl # ls'"
    by (auto simp: bind_err_eq_Inr)
  show ?case
  proof (cases i)
    case 0
    then show ?thesis using c e by simp
  next
    case (Suc j)
    then have "j < length ss" using Cons.prems(2) by simp
    then show ?thesis using Cons.IH[OF l] Suc e by simp
  qed
qed

lemma slant_range_correction_nth:
  assumes "slant_range_correction ssd sw = Inr sw'" and "s < length (swath_right sw)"
  shows "corrected_intensity_value (res ssd) (altitude sw) (length (swath_right sw))
           (swath_right sw) s = Inr (swath_right sw' ! s)"
    and "corrected_intensity_value (res ssd) (altitude sw) (length (swath_right sw))
           (swath_left sw) s = Inr (swath_left sw' ! s)"
proof -
  obtain rs ls where l: "slant_loop (res ssd) (altitude sw) (length (swath_right sw))
        (swath_right sw) (swath_left sw) [0..<length (swath_right sw)] = Inr (rs, ls)"
    and e: "sw' = sw\<lparr>swath_right := rs, swath_left := ls\<rparr>"
    using assms(1) unfolding slant_range_correction_def
    by (auto simp: Let_def bind_err_eq_Inr)
  have "corrected_intensity_value (res ssd) (altitude sw) (length (swath_right sw))
           (swath_right sw) ([0..<length (swath_right sw)] ! s) = Inr (rs ! s)
      \<and> corrected_intensity_value (res ssd) (altitude sw) (length (swath_right sw))
           (swath_left sw) ([0..<length (swath_right sw)] ! s) = Inr (ls ! s)"
    by (rule slant_loop_nth[OF l]) (use assms(2) in simp)
  then show "corrected_intensity_value (res ssd) (altitude sw) (length (swath_right sw))
           (swath_right sw) s = Inr (swath_right sw' ! s)"
    and "corrected_intensity_value (res ssd) (altitude sw) (length (swath_right sw))
           (swath_left sw) s = Inr (swath_left sw' ! s)"
    using assms(2) by (simp_all add: e)
qed

text \<open>
  Claim C10. An altitude message that arrives after a swath was queued does not change
  the swath, but the tick that processes the swath removes the blind zone with the
  altitude of that message (the node's current altitude). Slant-range correction works
  with the altitude captured with the swath: every corrected sample is the blend of
  lines 96-103 computed with \<open>exact_bin = sqrt ((res * s)\<^sup>2 + a\<^sup>2) / res\<close> for the
  captured altitude \<open>a\<close>, which is also the altitude of the processed swath.
\<close>

theorem blind_zone_uses_current_altitude:
  assumes queued: "buffer_unprocessed_swaths st \<noteq> []"
    and valid: "dvl_altitude dmsg \<noteq> - 1"
    and ok: "run_full_pre_processing_pipeline ext (dvl_sub dmsg st) = Inr st'"
  shows "heap (dvl_sub dmsg st) = heap st
       \<and> current_altitude (dvl_sub dmsg st) = dvl_altitude dmsg
       \<and> (\<exists>r1 l1 r2 l2 sw'.
            swath_normalization ext (swath_right (heap st (hd (buffer_unprocessed_swaths st)))) = Inr r1
          \<and> swath_normalization ext (swath_left (heap st (hd (buffer_unprocessed_swaths st)))) = Inr l1
          \<and> blind_zone_removal (side_scan_data st) (normalized_container ext)
               (dvl_altitude dmsg) r1 = Inr r2
          \<and> blind_zone_removal (side_scan_data st) (normalized_container ext)
               (dvl_altitude dmsg) l1 = Inr l2
          \<and> slant_range_correction (side_scan_data st)
               \<lparr>swath_right = r2, swath_left = l2,
                state = state (heap st (hd (buffer_unprocessed_swaths st))),
                altitude = altitude (heap st (hd (buffer_unprocessed_swaths st)))\<rparr> = Inr sw'
          \<and> heap st' (hd (buffer_unprocessed_swaths st)) = sw'
          \<and> altitude sw' = altitude (heap st (hd (buffer_unprocessed_swaths st)))
          \<and> length (swath_right sw') = length r2
          \<and> length (swath_left sw') = length r2
          \<and> (\<forall>s < length r2.
                corrected_intensity_value (res (side_scan_data st))
                  (altitude (heap st (hd (buffer_unprocessed_swaths st)))) (length r2) r2 s
                  = Inr (swath_right sw' ! s)
              \<and> corrected_intensity_value (res (side_scan_data st))
                  (altitude (heap st (hd (buffer_unprocessed_swaths st)))) (length r2) l2 s
                  = Inr (swath_left sw' ! s)))"
proof -
  let ?d = "dvl_sub dmsg st"
  have d: "heap ?d = heap st" "buffer_unprocessed_swaths ?d = buffer_unprocessed_swaths st"
    "current_altitude ?d = dvl_altitude dmsg" "side_scan_data ?d = side_scan_data st"
    using valid by (simp_all add: dvl_sub_def)
  have q: "buffer_unprocessed_swaths ?d \<noteq> []" using queued by (simp add: d)
  from run_full_pre[OF ok q] obtain st1 r1 l1 r2 l2 sw' ca where
    fr: "heap st1 = heap ?d" "buffer_unprocessed_swaths st1 = buffer_unprocessed_swaths ?d"
      "current_altitude st1 = current_altitude ?d" "side_scan_data st1 = side_scan_data ?d"
    and n1: "swath_normalization ext (swath_right (heap st1 (hd (buffer_unprocessed_swaths st1)))) = Inr r1"
    and n2: "swath_normalization ext (swath_left (heap st1 (hd (buffer_unprocessed_swaths st1)))) = Inr l1"
    and b1: "blind_zone_removal (side_scan_data st1) (normalized_container ext) (current_altitude st1) r1 = Inr r2"
    and b2: "blind_zone_removal (side_scan_data st1) (normalized_container ext) (current_altitude st1) l1 = Inr l2"
    and sl: "slant_range_correction (side_scan_data st1)
         ((heap st1 (hd (buffer_unprocessed_swaths st1)))\<lparr>swath_right := r2, swath_left := l2\<rparr>) = Inr sw'"
    and post: "st' = st1\<lparr>heap := (heap st1)(hd (buffer_unprocessed_swaths st1) := sw'),
                 buffer_processed_coordinate_array := buffer_processed_coordinate_array st1 @ [ca],
                 buffer_unprocessed_swaths := tl (buffer_unprocessed_swaths st1)\<rparr>"
    by metis
  let ?sw = "heap st (hd (buffer_unprocessed_swaths st))"
  let ?in = "\<lparr>swath_right = r2, swath_left = l2, state = state ?sw, altitude = altitude ?sw\<rparr>"
  have upd: "?sw\<lparr>swath_right := r2, swath_left := l2\<rparr> = ?in"
    by simp
  have sl': "slant_range_correction (side_scan_data st) ?in = Inr sw'"
    using sl unfolding fr d upd .
  have h: "heap st' (hd (buffer_unprocessed_swaths st)) = sw'"
    by (simp add: post fr d)
  have a: "altitude sw' = altitude ?sw"
    using slant_range_correction_length(3)[OF sl'] by simp
  have len: "length (swath_right sw') = length r2" "length (swath_left sw') = length r2"
    using slant_range_correction_length(1,2)[OF sl'] by simp_all
  have each: "\<forall>s < length r2.
                corrected_intensity_value (res (side_scan_data st)) (altitude ?sw) (length r2) r2 s
                  = Inr (swath_right sw' ! s)
              \<and> corrected_intensity_value (res (side_scan_data st)) (altitude ?sw) (length r2) l2 s
                  = Inr (swath_left sw' ! s)"
  proof (intro allI impI)
    fix s assume "s < length r2"
    then have "s < length (swath_right ?in)" by simp
    from slant_range_correction_nth[OF sl' this]
    show "corrected_intensity_value (res (side_scan_data st)) (altitude ?sw) (length r2) r2 s
                  = Inr (swath_right sw' ! s)
              \<and> corrected_intensity_value (res (side_scan_data st)) (altitude ?sw) (length r2) l2 s
                  = Inr (swath_left sw' ! s)"
      by simp
  qed
  show ?thesis
    using n1 n2 b1 b2 sl' h a len each d(1,3) unfolding fr d by blast
qed

text \<open>
  A swath captured at altitude 4 and processed after an altitude message of \<open>3 / 2\<close>:
  the blind zone is one sample (the captured altitude would give two), and the first
  corrected sample is 20 (the later altitude would give the marker).
\<close>

lemma node_cap_eq:
  "node_cap =
     \<lparr>side_scan_data = ssd_cap,
      heap = (\<lambda>_. fresh_swath_ex)
               (0 := \<lparr>swath_right = [Val 10, Val 20], swath_left = [Val 30, Val 40],
                       state = odometry_ex, altitude = 4\<rparr>),
      current_swath = 0,
      current_altitude = 4,
      current_state = odometry_ex,
      state_initialized = True,
      buffer_unprocessed_swaths = [0],
      buffer_processed_coordinate_array = [],
      processed_frame_counter = 1,
      stored_frames = []\<rparr>"
  by (simp add: node_cap_def sonar_sub_def dvl_sub_def state_sub_def init_def msg_cap_def
      dvl_cap_def int_from_bytes_big_def fresh_swath_ex_def)

lemma index_FBR_cap: "index_FBR ssd_cap (3 / 2) = Inr 1" "index_FBR ssd_cap 4 = Inr 2"
proof -
  have "\<lfloor>8 / 3 :: real\<rfloor> = 2" by (rule floor_unique) simp_all
  then show "index_FBR ssd_cap (3 / 2) = Inr 1" "index_FBR ssd_cap 4 = Inr 2"
    by (simp_all add: index_FBR_def ssd_cap_def sin_30)
qed

lemma blind_zone_cap:
  "blind_zone_removal ssd_cap NdArray (3 / 2) [x, y] = Inr [NaN, y]"
  "blind_zone_removal ssd_cap NdArray 4 [x, y] = Inr [NaN, NaN]"
  by (simp_all add: blind_zone_removal_def index_FBR_cap slice_length_def numeral_2_eq_2)

lemma sqrt_9_4: "sqrt (9 / 4) = 3 / 2"
  using real_sqrt_abs[of "3 / 2"] by (simp add: power2_eq_square)

lemma floor_half: "\<lfloor>1 / 2 :: real\<rfloor> = 0" and ceil_half: "\<lceil>1 / 2 :: real\<rceil> = 1"
  by (simp_all add: floor_eq_iff ceiling_eq_iff)

lemma civ_cap:
  "corrected_intensity_value 3 4 2 [NaN, Val y] 0 = Inr (Val y)"
  "corrected_intensity_value 3 4 2 [NaN, Val y] 1 = Inr (Val y)"
  "corrected_intensity_value 3 (3 / 2) 2 [NaN, Val y] 0 = Inr NaN"
  "corrected_intensity_value 3 0 2 [NaN, Val y] 0 = Inr NaN"
  by (simp_all add: corrected_intensity_value_def py_index_def floor_bin_def ceiling_bin_def
      exact_bin_def weight_1_def weight_2_def sqrt16 sqrt25 sqrt_9_4 floor_4_3 floor_5_3
      ceil_4_3 ceil_5_3 floor_half ceil_half algebra_simps)

lemma slant_cap:
  "slant_range_correction ssd_cap
      \<lparr>swath_right = [NaN, Val 20], swath_left = [NaN, Val 40], state = odometry_ex, altitude = 4\<rparr>
    = Inr \<lparr>swath_right = [Val 20, Val 20], swath_left = [Val 40, Val 40],
           state = odometry_ex, altitude = 4\<rparr>"
  using civ_cap(1,2)[of 20, unfolded numeral_2_eq_2] civ_cap(1,2)[of 40, unfolded numeral_2_eq_2]
  by (simp add: slant_range_correction_def ssd_cap_def upt_0_2)

lemma pose_cap:
  "pose_correction ssd_cap
     \<lparr>swath_right = [Val 20, Val 20], swath_left = [Val 40, Val 40],
       state = odometry_ex, altitude = 4\<rparr>
   = Inr \<lparr>x_right = [0, 0], x_left = [0, 0], y_right = [0, 0], y_left = [0, 0],
          intensity_right = [Val 20, Val 20], intensity_left = [Val 40, Val 40]\<rparr>"
  by (simp add: pose_correction_def ssd_cap_def odometry_ex_def pitch_yaw_ex upt_0_2)

lemma tick_cap:
  "run_full_pre_processing_pipeline ext_ex (dvl_sub dvl_late node_cap) = Inr node_cap_done"
  unfolding node_cap_eq
  by (simp add: run_full_pre_processing_pipeline_def dvl_sub_def dvl_late_def ext_ex_def
      Let_def blind_zone_cap slant_cap pose_cap node_cap_done_def)

theorem blind_zone_uses_current_altitude_witness:
  "altitude (heap node_cap 0) = 4
   \<and> current_altitude (dvl_sub dvl_late node_cap) = 3 / 2
   \<and> altitude (heap (dvl_sub dvl_late node_cap) 0) = 4
   \<and> run_full_pre_processing_pipeline ext_ex (dvl_sub dvl_late node_cap) = Inr node_cap_done
   \<and> blind_zone_removal ssd_cap NdArray (3 / 2) [Val 10, Val 20] = Inr [NaN, Val 20]
   \<and> blind_zone_removal ssd_cap NdArray 4 [Val 10, Val 20] = Inr [NaN, NaN]
   \<and> corrected_intensity_value 3 4 2 [NaN, Val 20] 0 = Inr (swath_right (heap node_cap_done 0) ! 0)
   \<and> corrected_intensity_value 3 4 2 [NaN, Val 20] 0 = Inr (Val 20)
   \<and> corrected_intensity_value 3 (3 / 2) 2 [NaN, Val 20] 0 = Inr NaN
   \<and> swath_right (heap node_cap_done 0) = [Val 20, Val 20]
   \<and> swath_left (heap node_cap_done 0) = [Val 40, Val 40]
   \<and> altitude (heap node_cap_done 0) = 4"
proof -
  have q: "buffer_unprocessed_swaths node_cap \<noteq> []"
    and hq: "hd (buffer_unprocessed_swaths node_cap) = 0"
    and h: "heap node_cap 0 = \<lparr>swath_right = [Val 10, Val 20], swath_left = [Val 30, Val 40],
                       state = odometry_ex, altitude = 4\<rparr>"
    and g: "side_scan_data node_cap = ssd_cap"
    by (simp_all add: node_cap_eq)
  have v: "dvl_altitude dvl_late \<noteq> - 1" and v1: "dvl_altitude dvl_late = 3 / 2"
    by (simp_all add: dvl_late_def)
  have n: "swath_normalization ext_ex = Inr" and k: "normalized_container ext_ex = NdArray"
    by (simp_all add: ext_ex_def)
  have r: "res ssd_cap = 3"
    by (simp add: ssd_cap_def)
  from blind_zone_uses_current_altitude[OF q v tick_cap]
  obtain r1 r2 where hd: "heap (dvl_sub dvl_late node_cap) = heap node_cap"
    and ca: "current_altitude (dvl_sub dvl_late node_cap) = 3 / 2"
    and r1: "Inr [Val 10, Val 20] = (Inr r1 :: error + sample list)"
    and r2: "blind_zone_removal ssd_cap NdArray (3 / 2) r1 = Inr r2"
    and al: "altitude (heap node_cap_done 0) = 4"
    and each: "\<forall>s < length r2. corrected_intensity_value 3 4 (length r2) r2 s
                  = Inr (swath_right (heap node_cap_done 0) ! s)"
    unfolding hq h g v1 n k r by auto
  have "r1 = [Val 10, Val 20]" using r1 by simp
  then have "r2 = [NaN, Val 20]" using r2 by (simp add: blind_zone_cap)
  then have l2: "length r2 = 2" by simp
  have z: "(0::nat) < 2" by simp
  have "corrected_intensity_value 3 4 2 r2 0 = Inr (swath_right (heap node_cap_done 0) ! 0)"
    using each[unfolded l2] z by blast
  then have c: "corrected_intensity_value 3 4 2 [NaN, Val 20] 0
                  = Inr (swath_right (heap node_cap_done 0) ! 0)"
    unfolding \<open>r2 = [NaN, Val 20]\<close> .
  have d: "swath_right (heap node_cap_done 0) = [Val 20, Val 20]"
    "swath_left (heap node_cap_done 0) = [Val 40, Val 40]"
    by (simp_all add: node_cap_done_def)
  have a0: "altitude (heap node_cap 0) = 4" by (simp add: h)
  have a1: "altitude (heap (dvl_sub dvl_late node_cap) 0) = 4" by (simp add: hd h)
  show ?thesis
    using a0 ca a1 tick_cap blind_zone_cap(1)[of "Val 10" "Val 20"]
      blind_zone_cap(2)[of "Val 10" "Val 20"] c civ_cap(1)[of 20] civ_cap(3)[of 20] d al
    by (intro conjI)
qed

end
